theory Spec2Isabelle
  imports Main
begin

section \<open>JavaScript values used by canonical.js\<close>

text \<open>
  A JavaScript string is modelled as a \<^typ>\<open>string\<close> of ASCII characters. A thrown value is
  an \<open>Error\<close> carrying its \<open>message\<close>; a call that may throw returns \<open>exn + 'a\<close>, with
  \<open>Inl\<close> the exception, and a rejected promise is the same \<open>Inl\<close>
  (every \<open>await\<close> of the source rethrows the rejection).
\<close>

datatype exn = Error string

fun message :: "exn \<Rightarrow> string" where
  "message (Error m) = m"

subsection \<open>String methods\<close>

definition lower_char :: "char \<Rightarrow> char" where
  "lower_char c =
     (case map_of (zip ''ABCDEFGHIJKLMNOPQRSTUVWXYZ'' ''abcdefghijklmnopqrstuvwxyz'') c of
        Some d \<Rightarrow> d
      | None \<Rightarrow> c)"

definition toLowerCase :: "string \<Rightarrow> string" where
  "toLowerCase s = map lower_char s"

fun startsWith :: "string \<Rightarrow> string \<Rightarrow> bool" where
  "startsWith s [] = True"
| "startsWith [] (p # ps) = False"
| "startsWith (c # cs) (p # ps) = (c = p \<and> startsWith cs ps)"

definition endsWith :: "string \<Rightarrow> string \<Rightarrow> bool" where
  "endsWith s suffix = startsWith (rev s) (rev suffix)"

text \<open>\<open>s.includes(pat)\<close>: \<open>pat\<close> occurs somewhere in \<open>s\<close>.\<close>

fun str_includes :: "string \<Rightarrow> string \<Rightarrow> bool" where
  "str_includes [] pat = (pat = [])"
| "str_includes (c # cs) pat = (startsWith (c # cs) pat \<or> str_includes cs pat)"

text \<open>
  \<open>s.replace(pat, rep)\<close> with a string pattern: only the first occurrence of \<open>pat\<close> is
  replaced (the replacement strings of the source contain no \<open>$\<close> pattern).
\<close>

fun replace :: "string \<Rightarrow> string \<Rightarrow> string \<Rightarrow> string" where
  "replace [] pat rep = (if pat = [] then rep else [])"
| "replace (c # cs) pat rep =
     (if startsWith (c # cs) pat then rep @ drop (length pat) (c # cs)
      else c # replace cs pat rep)"

text \<open>\<open>s.slice(0, -1)\<close>: all but the last character.\<close>

definition slice_0_minus1 :: "string \<Rightarrow> string" where
  "slice_0_minus1 s = butlast s"

text \<open>\<open>s.split(sep)\<close> for a one-character separator, and \<open>s.split(sep)[0]\<close>.\<close>

fun split_on :: "char \<Rightarrow> string \<Rightarrow> string list" where
  "split_on sep [] = [[]]"
| "split_on sep (c # cs) =
     (if c = sep then [] # split_on sep cs
      else (case split_on sep cs of
              x # xs \<Rightarrow> (c # x) # xs
            | [] \<Rightarrow> [[c]]))"

definition split_first :: "string \<Rightarrow> char \<Rightarrow> string" where
  "split_first s sep = takeWhile (\<lambda>c. c \<noteq> sep) s"

text \<open>\<open>rows.join(sep)\<close>.\<close>

fun join :: "string list \<Rightarrow> string \<Rightarrow> string" where
  "join [] sep = []"
| "join [x] sep = x"
| "join (x # y # ys) sep = x @ sep @ join (y # ys) sep"

text \<open>\<open>s.trim()\<close>: white space removed at both ends (tab, LF, VT, FF, CR, space).\<close>

definition is_space :: "char \<Rightarrow> bool" where
  "is_space c = (c \<in> set [CHR 0x09, CHR 0x0A, CHR 0x0B, CHR 0x0C, CHR 0x0D, CHR '' ''])"

definition trim :: "string \<Rightarrow> string" where
  "trim s = rev (dropWhile is_space (rev (dropWhile is_space s)))"

text \<open>A number in a template literal: its decimal digits.\<close>

fun show_nat :: "nat \<Rightarrow> string" where
  "show_nat n =
     (if n < 10 then [''0123456789'' ! n]
      else show_nat (n div 10) @ [''0123456789'' ! (n mod 10)])"

declare show_nat.simps [simp del]

section \<open>The platform\<close>

text \<open>
  What canonical.js calls and does not define. \<open>URL\<close> holds the properties the source
  reads of a parsed URL: \<open>toString()\<close> (the serialisation), \<open>protocol\<close>,
  \<open>hostname\<close> and \<open>pathname\<close>.
\<close>

record URL =
  toString :: string
  protocol :: string
  hostname :: string
  pathname :: string

text \<open>A fetched response: \<open>response.status\<close> and the outcome of \<open>await response.text()\<close>.\<close>

record response =
  resp_status :: nat
  resp_text :: "exn + string"

text \<open>
  An element matched by \<open>querySelectorAll('link[rel="canonical"]')\<close>:
  \<open>getAttribute('href')\<close> (\<open>None\<close> for \<open>null\<close>) and whether \<open>closest('head')\<close> finds
  an ancestor.
\<close>

record link =
  getAttribute_href :: "string option"
  closest_head :: bool

text \<open>
  The object \<open>parseStringPromise\<close> resolves to, as far as \<open>fetchSitemapUrls\<close> reads it:
  \<open>result.urlset\<close> (\<open>None\<close> when undefined), \<open>urlset.url\<close> (\<open>None\<close> when undefined)
  and, for each entry, \<open>loc[0]\<close> (\<open>None\<close> when the entry has no \<open>loc\<close>).
\<close>

type_synonym sitemap_doc = "string option list option option"

text \<open>
  The network and the clock are the only things that change between two calls, so they
  are indexed by a tick: the number of \<open>fetch\<close> calls made so far. \<open>fetch p t u\<close> is
  the outcome of the call made at tick \<open>t\<close> for \<open>u\<close>; \<open>toISOString p t\<close> is
  \<open>new Date().toISOString()\<close> read at tick \<open>t\<close>. \<open>new_URL_base p h b\<close> is
  \<open>new URL(h, b)\<close>. \<open>JSDOM_canonicalLinks p html\<close> is \<open>new JSDOM(html)\<close> followed by
  the query for the canonical links of its document.
\<close>

record platform =
  new_URL :: "string \<Rightarrow> exn + URL"
  new_URL_base :: "string \<Rightarrow> string \<Rightarrow> exn + URL"
  fetch :: "nat \<Rightarrow> string \<Rightarrow> exn + response"
  JSDOM_canonicalLinks :: "string \<Rightarrow> exn + link list"
  parseStringPromise :: "string \<Rightarrow> exn + sitemap_doc"
  toISOString :: "nat \<Rightarrow> string"

section \<open>canonical.js: the normalizer\<close>

text \<open>
  \<open>normalizeUrl\<close> (lines 36 to 66). The \<open>try\<close> body can throw only in \<open>new URL(url)\<close>;
  the \<open>catch\<close> returns the argument. The result is \<open>exn + string\<close> so that "does not
  throw" is a statement about the function and not about its type.
\<close>

definition normalizeUrl :: "platform \<Rightarrow> string \<Rightarrow> exn + string" where
  "normalizeUrl p url =
     (case new_URL p url of
        Inl error \<Rightarrow> Inr url
      | Inr parsedUrl \<Rightarrow>
          (let normalized = toLowerCase (toString parsedUrl);
               normalized = (if endsWith normalized ''/'' \<and> pathname parsedUrl \<noteq> ''/''
                             then slice_0_minus1 normalized else normalized);
               normalized = replace (replace normalized '':80/'' ''/'') '':443/'' ''/'';
               normalized = replace normalized ''://www.'' ''://'';
               urlWithoutQuery = split_first normalized CHR ''?'';
               urlWithoutHash = split_first urlWithoutQuery CHR ''#''
           in Inr urlWithoutHash))"

text \<open>\<open>areUrlsEquivalent\<close> (lines 69 to 71).\<close>

definition areUrlsEquivalent :: "platform \<Rightarrow> string \<Rightarrow> string \<Rightarrow> exn + bool" where
  "areUrlsEquivalent p url1 url2 =
     (case normalizeUrl p url1 of
        Inl e \<Rightarrow> Inl e
      | Inr n1 \<Rightarrow> (case normalizeUrl p url2 of
                    Inl e \<Rightarrow> Inl e
                  | Inr n2 \<Rightarrow> Inr (n1 = n2)))"

subsection \<open>Notions used to state the normalizer's properties\<close>

text \<open>
  The value of \<open>normalized\<close> after the trailing-slash step (line 47), on which the
  replacements of lines 50 and 53 work.
\<close>

definition working :: "URL \<Rightarrow> string" where
  "working parsedUrl =
     (if endsWith (toLowerCase (toString parsedUrl)) ''/'' \<and> pathname parsedUrl \<noteq> ''/''
      then slice_0_minus1 (toLowerCase (toString parsedUrl))
      else toLowerCase (toString parsedUrl))"

text \<open>\<open>s.indexOf(pat)\<close>: the position of the first occurrence of \<open>pat\<close> in \<open>s\<close>.\<close>

fun indexOf :: "string \<Rightarrow> string \<Rightarrow> nat option" where
  "indexOf [] pat = (if pat = [] then Some 0 else None)"
| "indexOf (c # cs) pat =
     (if startsWith (c # cs) pat then Some 0 else map_option Suc (indexOf cs pat))"

text \<open>\<open>n\<close> characters deleted where \<open>pat\<close> first occurs; nothing when it does not occur.\<close>

definition delete_first :: "string \<Rightarrow> string \<Rightarrow> nat \<Rightarrow> string" where
  "delete_first s pat n =
     (case indexOf s pat of None \<Rightarrow> s | Some i \<Rightarrow> take i s @ drop (i + n) s)"

text \<open>The constructor accepts \<open>input\<close>, serialises it as \<open>serialised\<close> and gives it the
  path \<open>path\<close>.\<close>

definition parses :: "platform \<Rightarrow> string \<Rightarrow> string \<Rightarrow> string \<Rightarrow> bool" where
  "parses p input serialised path =
     (case new_URL p input of
        Inl e \<Rightarrow> False
      | Inr u \<Rightarrow> toString u = serialised \<and> pathname u = path)"

definition lowered :: "string \<Rightarrow> bool" where
  "lowered s = (\<forall>c \<in> set s. lower_char c = c)"

section \<open>canonical.js: the checks of one page\<close>

datatype Status = OK | FAIL

record result =
  res_url :: string
  res_status :: Status
  res_explanation :: string

text \<open>The two variables \<open>status\<close> and \<open>explanation\<close> of \<open>runCanonicalChecks\<close>.\<close>

type_synonym verdict = "Status \<times> string"

text \<open>\<open>status = 'FAIL'; explanation += reason\<close>.\<close>

definition fail :: "verdict \<Rightarrow> string \<Rightarrow> verdict" where
  "fail v reason = (FAIL, snd v @ reason)"

text \<open>The object returned at lines 168 to 172: \<open>explanation.trim() || 'No errors'\<close>.\<close>

definition finish :: "string \<Rightarrow> verdict \<Rightarrow> result" where
  "finish url v =
     \<lparr>res_url = url, res_status = fst v,
      res_explanation = (if trim (snd v) = [] then ''No errors'' else trim (snd v))\<rparr>"

text \<open>
  Lines 122 to 136: the inner \<open>try\<close> fetches the canonical target at tick \<open>t\<close>; its
  \<open>catch\<close> turns a rejected fetch into a reason.
\<close>

definition check_canonical_response :: "platform \<Rightarrow> nat \<Rightarrow> string \<Rightarrow> verdict \<Rightarrow> verdict" where
  "check_canonical_response p t canonicalUrl v =
     (case fetch p t canonicalUrl of
        Inr canonicalResponse \<Rightarrow>
          (let v = (if resp_status canonicalResponse \<noteq> 200
                    then fail v (''Canonical URL returned status ''
                                 @ show_nat (resp_status canonicalResponse) @ ''. '')
                    else v);
               v = (if resp_status canonicalResponse \<in> set [301, 302, 307, 308]
                    then fail v ''Canonical URL is redirecting. ''
                    else v)
           in v)
      | Inl error \<Rightarrow> fail v (''Error fetching canonical URL: '' @ message error @ ''. ''))"

text \<open>
  Lines 138 to 163: the checks that compare the page URL with the canonical URL. Both
  \<open>new URL\<close> calls are made twice by the source (for \<open>hostname\<close>, then for
  \<open>protocol\<close>); the constructor is a function of its argument, so the second pair
  gives what the first gave.
\<close>

definition compare_checks :: "platform \<Rightarrow> string \<Rightarrow> string \<Rightarrow> verdict \<Rightarrow> exn + verdict" where
  "compare_checks p url canonicalUrl v =
     (case new_URL p url of
        Inl e \<Rightarrow> Inl e
      | Inr pageUrl \<Rightarrow>
          (case new_URL p canonicalUrl of
             Inl e \<Rightarrow> Inl e
           | Inr targetUrl \<Rightarrow>
               (let v = (if hostname pageUrl \<noteq> hostname targetUrl
                         then fail v ''Canonical URL uses a different domain. '' else v);
                    v = (if protocol pageUrl \<noteq> protocol targetUrl
                         then fail v ''Canonical URL uses a different protocol. '' else v);
                    v = (if \<not> startsWith canonicalUrl ''http://''
                            \<and> \<not> startsWith canonicalUrl ''https://''
                         then fail v ''Canonical URL is not absolute. '' else v);
                    v = (if canonicalUrl \<noteq> toLowerCase canonicalUrl
                         then fail v ''Canonical URL is not lowercase. '' else v)
                in Inr v)))"

text \<open>
  Lines 115 to 163, entered with a non-empty \<open>href\<close>. The page was fetched at tick
  \<open>t\<close>, so the canonical target is fetched at tick \<open>t + 1\<close>. The second component is
  the tick after the block.
\<close>

definition href_checks ::
  "platform \<Rightarrow> string \<Rightarrow> link \<Rightarrow> string \<Rightarrow> verdict \<Rightarrow> nat \<Rightarrow> (exn + verdict) \<times> nat" where
  "href_checks p url canonicalLink h v t =
     (case new_URL_base p h url of
        Inl e \<Rightarrow> (Inl e, t + 1)
      | Inr resolved \<Rightarrow>
          (let canonicalUrl = toString resolved;
               v = (if \<not> closest_head canonicalLink
                    then fail v ''Canonical tag is not in the head section. '' else v);
               v = check_canonical_response p (t + 1) canonicalUrl v
           in (compare_checks p url canonicalUrl v, t + 2)))"

text \<open>Lines 95 to 165: from the canonical links of the document to the verdict.\<close>

definition link_checks ::
  "platform \<Rightarrow> string \<Rightarrow> link list \<Rightarrow> nat \<Rightarrow> (exn + verdict) \<times> nat" where
  "link_checks p url canonicalLinks t =
     (if length canonicalLinks = 0 then (Inr (fail (OK, []) ''Canonical tag is missing. ''), t + 1)
      else
        (let v = (if length canonicalLinks > 1
                  then fail (OK, []) ''Multiple canonical tags detected. '' else (OK, []));
             canonicalLink = hd canonicalLinks
         in (case getAttribute_href canonicalLink of
               None \<Rightarrow> (Inr (fail v ''Canonical tag is empty. ''), t + 1)
             | Some h \<Rightarrow>
                 (if h = [] then (Inr (fail v ''Canonical tag is empty. ''), t + 1)
                  else href_checks p url canonicalLink h v t))))"

text \<open>
  The body of the outer \<open>try\<close> (lines 89 to 172): \<open>Inl\<close> is an exception that
  reaches the outer \<open>catch\<close>.
\<close>

definition runCanonicalChecks_try :: "platform \<Rightarrow> string \<Rightarrow> nat \<Rightarrow> (exn + result) \<times> nat" where
  "runCanonicalChecks_try p url t =
     (case fetch p t url of
        Inl e \<Rightarrow> (Inl e, t + 1)
      | Inr response \<Rightarrow>
          (case resp_text response of
             Inl e \<Rightarrow> (Inl e, t + 1)
           | Inr html \<Rightarrow>
               (case JSDOM_canonicalLinks p html of
                  Inl e \<Rightarrow> (Inl e, t + 1)
                | Inr canonicalLinks \<Rightarrow>
                    (case link_checks p url canonicalLinks t of
                       (Inl e, t') \<Rightarrow> (Inl e, t')
                     | (Inr v, t') \<Rightarrow> (Inr (finish url v), t')))))"

text \<open>
  \<open>runCanonicalChecks\<close> (lines 87 to 181): the outer \<open>catch\<close> (lines 173 to 180)
  returns a result for every exception of the body. The value is \<open>exn + result\<close>:
  \<open>Inl\<close> would be an exception leaving the function.
\<close>

definition runCanonicalChecks :: "platform \<Rightarrow> string \<Rightarrow> nat \<Rightarrow> (exn + result) \<times> nat" where
  "runCanonicalChecks p url t =
     (case runCanonicalChecks_try p url t of
        (Inr r, t') \<Rightarrow> (Inr r, t')
      | (Inl error, t') \<Rightarrow>
          (Inr \<lparr>res_url = url, res_status = FAIL,
                res_explanation = ''Fetch error: '' @ message error\<rparr>, t'))"

subsection \<open>The earlier variant with the self-reference check\<close>

text \<open>
  The second program of canonical.js (lines 264 to 459) has the same
  \<open>runCanonicalChecks\<close> but for the checks after the inner \<open>try\<close> (lines 360 to 383):
  it first requires the canonical URL to be the page URL, and tests absoluteness before
  domain and protocol.
\<close>

definition compare_checks_selfref :: "platform \<Rightarrow> string \<Rightarrow> string \<Rightarrow> verdict \<Rightarrow> exn + verdict" where
  "compare_checks_selfref p url canonicalUrl v =
     (let v = (if canonicalUrl \<noteq> url
               then fail v ''Canonical URL does not reference itself. '' else v);
          v = (if \<not> startsWith canonicalUrl ''http://''
                  \<and> \<not> startsWith canonicalUrl ''https://''
               then fail v ''Canonical URL is not absolute. '' else v)
      in (case new_URL p url of
            Inl e \<Rightarrow> Inl e
          | Inr pageUrl \<Rightarrow>
              (case new_URL p canonicalUrl of
                 Inl e \<Rightarrow> Inl e
               | Inr targetUrl \<Rightarrow>
                   (let v = (if hostname pageUrl \<noteq> hostname targetUrl
                             then fail v ''Canonical URL uses a different domain. '' else v);
                        v = (if protocol pageUrl \<noteq> protocol targetUrl
                             then fail v ''Canonical URL uses a different protocol. '' else v);
                        v = (if canonicalUrl \<noteq> toLowerCase canonicalUrl
                             then fail v ''Canonical URL is not lowercase. '' else v)
                    in Inr v))))"

definition href_checks_selfref ::
  "platform \<Rightarrow> string \<Rightarrow> link \<Rightarrow> string \<Rightarrow> verdict \<Rightarrow> nat \<Rightarrow> (exn + verdict) \<times> nat" where
  "href_checks_selfref p url canonicalLink h v t =
     (case new_URL_base p h url of
        Inl e \<Rightarrow> (Inl e, t + 1)
      | Inr resolved \<Rightarrow>
          (let canonicalUrl = toString resolved;
               v = (if \<not> closest_head canonicalLink
                    then fail v ''Canonical tag is not in the head section. '' else v);
               v = check_canonical_response p (t + 1) canonicalUrl v
           in (compare_checks_selfref p url canonicalUrl v, t + 2)))"

definition link_checks_selfref ::
  "platform \<Rightarrow> string \<Rightarrow> link list \<Rightarrow> nat \<Rightarrow> (exn + verdict) \<times> nat" where
  "link_checks_selfref p url canonicalLinks t =
     (if length canonicalLinks = 0 then (Inr (fail (OK, []) ''Canonical tag is missing. ''), t + 1)
      else
        (let v = (if length canonicalLinks > 1
                  then fail (OK, []) ''Multiple canonical tags detected. '' else (OK, []));
             canonicalLink = hd canonicalLinks
         in (case getAttribute_href canonicalLink of
               None \<Rightarrow> (Inr (fail v ''Canonical tag is empty. ''), t + 1)
             | Some h \<Rightarrow>
                 (if h = [] then (Inr (fail v ''Canonical tag is empty. ''), t + 1)
                  else href_checks_selfref p url canonicalLink h v t))))"

definition runCanonicalChecks_selfref :: "platform \<Rightarrow> string \<Rightarrow> nat \<Rightarrow> (exn + result) \<times> nat" where
  "runCanonicalChecks_selfref p url t =
     (case (case fetch p t url of
              Inl e \<Rightarrow> (Inl e, t + 1)
            | Inr response \<Rightarrow>
                (case resp_text response of
                   Inl e \<Rightarrow> (Inl e, t + 1)
                 | Inr html \<Rightarrow>
                     (case JSDOM_canonicalLinks p html of
                        Inl e \<Rightarrow> (Inl e, t + 1)
                      | Inr canonicalLinks \<Rightarrow>
                          (case link_checks_selfref p url canonicalLinks t of
                             (Inl e, t') \<Rightarrow> (Inl e, t')
                           | (Inr v, t') \<Rightarrow> (Inr (finish url v), t'))))) of
        (Inr r, t') \<Rightarrow> (Inr r, t')
      | (Inl error, t') \<Rightarrow>
          (Inr \<lparr>res_url = url, res_status = FAIL,
                res_explanation = ''Fetch error: '' @ message error\<rparr>, t'))"

subsection \<open>Notions used to state the properties of the checks\<close>

text \<open>
  \<open>sound v\<close>: the explanation is empty exactly when the status is \<open>OK\<close>, and a
  non-empty explanation starts with the first letter of one of the reasons.
  \<open>grown v w\<close>: \<open>w\<close> is \<open>v\<close> after further checks, which only append reasons and
  never reset \<open>FAIL\<close>.
\<close>

definition sound :: "verdict \<Rightarrow> bool" where
  "sound v = (if fst v = OK then snd v = [] else snd v \<noteq> [] \<and> hd (snd v) \<in> set ''CME'')"

definition grown :: "verdict \<Rightarrow> verdict \<Rightarrow> bool" where
  "grown v w = ((\<exists>suffix. snd w = snd v @ suffix) \<and> (fst v = FAIL \<longrightarrow> fst w = FAIL))"

section \<open>canonical.js: the audit of the configured sitemaps\<close>

text \<open>\<open>getDomainName\<close> (lines 20 to 22).\<close>

definition getDomainName :: "platform \<Rightarrow> string \<Rightarrow> exn + string" where
  "getDomainName p url = (case new_URL p url of Inl e \<Rightarrow> Inl e | Inr u \<Rightarrow> Inr (hostname u))"

text \<open>
  \<open>getSitemapName\<close> (lines 25 to 27). The global pattern has two alternatives: the first
  matches at the start only (\<open>http\<close>, an optional \<open>s\<close>, \<open>://\<close>, one or more characters
  other than a slash, a slash), the second at the end only (\<open>.xml\<close>), in what the first
  match left. Then every slash becomes a dash.
\<close>

definition strip_origin :: "string \<Rightarrow> string option" where
  "strip_origin s =
     (let after = (if startsWith s ''https://'' then Some (drop 8 s)
                   else if startsWith s ''http://'' then Some (drop 7 s)
                   else None)
      in (case after of
            None \<Rightarrow> None
          | Some r \<Rightarrow>
              (let host = takeWhile (\<lambda>c. c \<noteq> CHR ''/'') r;
                   tl_r = dropWhile (\<lambda>c. c \<noteq> CHR ''/'') r
               in if host \<noteq> [] \<and> tl_r \<noteq> [] then Some (drop 1 tl_r) else None)))"

definition getSitemapName :: "string \<Rightarrow> string" where
  "getSitemapName url =
     (let r = (case strip_origin url of Some r \<Rightarrow> r | None \<Rightarrow> url);
          r = (if endsWith r ''.xml'' then take (length r - 4) r else r)
      in map (\<lambda>c. if c = CHR ''/'' then CHR ''-'' else c) r)"

text \<open>\<open>getTimestamp\<close> (lines 30 to 33), read at tick \<open>t\<close>.\<close>

definition getTimestamp :: "platform \<Rightarrow> nat \<Rightarrow> string" where
  "getTimestamp p t = split_first (filter (\<lambda>c. c \<notin> set ''-T:'') (toISOString p t)) CHR ''.''"

text \<open>
  \<open>fetchSitemapUrls\<close> (lines 74 to 84), called at tick \<open>t\<close>. Reading a property of
  \<open>undefined\<close> throws a TypeError; the source has no \<open>try\<close> here.
\<close>

definition TypeError_reading :: "string \<Rightarrow> exn" where
  "TypeError_reading prop =
     Error (''Cannot read properties of undefined (reading '' @ [CHR 0x27] @ prop @ [CHR 0x27] @ '')'')"

definition fetchSitemapUrls :: "platform \<Rightarrow> string \<Rightarrow> nat \<Rightarrow> (exn + string list) \<times> nat" where
  "fetchSitemapUrls p sitemapUrl t =
     (case fetch p t sitemapUrl of
        Inl e \<Rightarrow> (Inl e, t + 1)
      | Inr response \<Rightarrow>
          (case resp_text response of
             Inl e \<Rightarrow> (Inl e, t + 1)
           | Inr xml \<Rightarrow>
               (case parseStringPromise p xml of
                  Inl e \<Rightarrow> (Inl e, t + 1)
                | Inr None \<Rightarrow> (Inl (TypeError_reading ''url''), t + 1)
                | Inr (Some None) \<Rightarrow> (Inl (TypeError_reading ''map''), t + 1)
                | Inr (Some (Some entries)) \<Rightarrow>
                    (if None \<in> set entries then (Inl (TypeError_reading ''0''), t + 1)
                     else (Inr (map the entries), t + 1)))))"

text \<open>
  \<open>saveResultsToCSV\<close> (lines 184 to 214). The file system is the list of the files
  written, last first; its calls are taken to succeed. \<open>path.join\<close> is applied to
  segments without slashes and joins them with one.
\<close>

record totals =
  totalOK :: nat
  totalFail :: nat
  totalChecked :: nat

definition path_join :: "string \<Rightarrow> string \<Rightarrow> string" where
  "path_join a b = (if b = [] then a else a @ ''/'' @ b)"

fun show_Status :: "Status \<Rightarrow> string" where
  "show_Status OK = ''OK''"
| "show_Status FAIL = ''FAIL''"

definition csv_row :: "result \<Rightarrow> string" where
  "csv_row r =
     res_url r @ '','' @ show_Status (res_status r) @ '','' @ [CHR 0x22] @ res_explanation r @ [CHR 0x22]"

definition saveResultsToCSV ::
  "platform \<Rightarrow> result list \<Rightarrow> string \<Rightarrow> string \<Rightarrow> nat \<Rightarrow> (string \<times> string) list
     \<Rightarrow> totals \<times> (string \<times> string) list" where
  "saveResultsToCSV p results domain sitemapName t fs =
     (let resultsDir = path_join ''results'' domain;
          timestamp = getTimestamp p t;
          csvFilePath = path_join resultsDir (sitemapName @ ''_'' @ timestamp @ ''.csv'');
          nOK = length (filter (\<lambda>r. res_status r = OK) results);
          nFail = length (filter (\<lambda>r. res_status r \<noteq> OK) results);
          csvRows = [''URL,Status,Explanation''] @ map csv_row results
                    @ [[CHR 0x0A] @ ''Total URLs Checked: '' @ show_nat (length results),
                       ''Total OK: '' @ show_nat nOK,
                       ''Total FAIL (Canonical Issues): '' @ show_nat nFail]
      in (\<lparr>totalOK = nOK, totalFail = nFail, totalChecked = length results\<rparr>,
          (csvFilePath, join csvRows [CHR 0x0A]) # fs))"

text \<open>
  \<open>runAudit\<close> (lines 217 to 263). The state is what the loop over the sitemaps changes:
  the tick, the files written and the three grand totals. The inner loop (lines 232 to
  241) is \<open>auditUrls\<close>. No statement of \<open>runAudit\<close> is inside a \<open>try\<close>: an exception
  of \<open>getDomainName\<close>, \<open>fetchSitemapUrls\<close> or \<open>runCanonicalChecks\<close> leaves the loop
  and rejects the promise of \<open>runAudit\<close> (\<open>Some\<close> in the first component; \<open>None\<close> when
  the function runs to its end). The lines written to the console are not modelled.
\<close>

record config =
  sitemapUrls :: "string list"

record audit_state =
  tick :: nat
  files :: "(string \<times> string) list"
  grandTotalOK :: nat
  grandTotalFail :: nat
  grandTotalChecked :: nat

fun auditUrls :: "platform \<Rightarrow> string list \<Rightarrow> result list \<Rightarrow> nat \<Rightarrow> (exn + result list) \<times> nat" where
  "auditUrls p [] results t = (Inr results, t)"
| "auditUrls p (url # urls) results t =
     (case runCanonicalChecks p url t of
        (Inl e, t') \<Rightarrow> (Inl e, t')
      | (Inr r, t') \<Rightarrow> auditUrls p urls (results @ [r]) t')"

fun auditSitemaps :: "platform \<Rightarrow> string list \<Rightarrow> audit_state \<Rightarrow> exn option \<times> audit_state" where
  "auditSitemaps p [] s = (None, s)"
| "auditSitemaps p (sitemapUrl # rest) s =
     (case getDomainName p sitemapUrl of
        Inl e \<Rightarrow> (Some e, s)
      | Inr domain \<Rightarrow>
          (let sitemapName = getSitemapName sitemapUrl
           in (case fetchSitemapUrls p sitemapUrl (tick s) of
                 (Inl e, t1) \<Rightarrow> (Some e, s\<lparr>tick := t1\<rparr>)
               | (Inr urls, t1) \<Rightarrow>
                   (case auditUrls p urls [] t1 of
                      (Inl e, t2) \<Rightarrow> (Some e, s\<lparr>tick := t2\<rparr>)
                    | (Inr results, t2) \<Rightarrow>
                        (case saveResultsToCSV p results domain sitemapName t2 (files s) of
                           (tot, fs) \<Rightarrow>
                             auditSitemaps p rest
                               \<lparr>tick = t2, files = fs,
                                grandTotalOK = grandTotalOK s + totalOK tot,
                                grandTotalFail = grandTotalFail s + totalFail tot,
                                grandTotalChecked = grandTotalChecked s + totalChecked tot\<rparr>)))))"

definition runAudit :: "platform \<Rightarrow> config \<Rightarrow> exn option \<times> audit_state" where
  "runAudit p cfg =
     auditSitemaps p (sitemapUrls cfg)
       \<lparr>tick = 0, files = [], grandTotalOK = 0, grandTotalFail = 0, grandTotalChecked = 0\<rparr>"

section \<open>A concrete platform\<close>

subsection \<open>The URL constructor on plain http and https URLs\<close>

text \<open>
  \<open>node_URL\<close> follows the URL Standard's parser and serialiser on the inputs
  \<open>scheme://host[:port][/path][?query][#fragment]\<close> where the scheme is \<open>http\<close> or
  \<open>https\<close> in any case, the host is made of labels of letters, digits and dashes
  separated by dots, its last label starting with a letter and no label starting with
  \<open>xn--\<close>, the port is decimal, and path, query and fragment contain only characters
  that the parser leaves as they are. There the scheme and the host are lowercased, a
  port equal to the scheme's default is dropped, an empty path becomes \<open>/\<close>, and the
  segments \<open>.\<close> and \<open>..\<close> are resolved. On every other input \<open>node_URL\<close> answers
  \<open>Invalid URL\<close>, also where the platform would accept the string (credentials, IP
  addresses, characters to be percent-encoded, relative references); it is evaluated
  only on inputs of the shape above.
\<close>

definition plain_char :: "char \<Rightarrow> bool" where
  "plain_char c =
     (c \<in> set ''abcdefghijklmnopqrstuvwxyzABCDEFGHIJKLMNOPQRSTUVWXYZ0123456789-._~:=&/'')"

definition label_char :: "char \<Rightarrow> bool" where
  "label_char c = (c \<in> set ''abcdefghijklmnopqrstuvwxyzABCDEFGHIJKLMNOPQRSTUVWXYZ0123456789-'')"

definition letter_char :: "char \<Rightarrow> bool" where
  "letter_char c = (c \<in> set ''abcdefghijklmnopqrstuvwxyzABCDEFGHIJKLMNOPQRSTUVWXYZ'')"

definition digit_char :: "char \<Rightarrow> bool" where
  "digit_char c = (c \<in> set ''0123456789'')"

definition digit_value :: "char \<Rightarrow> nat" where
  "digit_value c =
     (case map_of (zip ''0123456789'' [0, 1, 2, 3, 4, 5, 6, 7, 8, 9]) c of
        Some d \<Rightarrow> d
      | None \<Rightarrow> 0)"

fun read_nat :: "string \<Rightarrow> nat \<Rightarrow> nat" where
  "read_nat [] acc = acc"
| "read_nat (c # cs) acc = read_nat cs (10 * acc + digit_value c)"

definition plain_host :: "string \<Rightarrow> bool" where
  "plain_host h =
     (let labels = split_on CHR ''.'' h
      in list_all (\<lambda>l. l \<noteq> [] \<and> list_all label_char l \<and> \<not> startsWith (toLowerCase l) ''xn--'') labels
         \<and> letter_char (hd (last labels)))"

text \<open>
  The path state of the parser: the segments between slashes, read left to right;
  \<open>..\<close> removes the last segment kept so far, \<open>.\<close> is skipped, and either of them in
  last position leaves an empty last segment.
\<close>

fun path_segments :: "string list \<Rightarrow> string list \<Rightarrow> string list" where
  "path_segments [] acc = acc"
| "path_segments (seg # rest) acc =
     (if seg = ''..'' then path_segments rest (butlast acc @ (if rest = [] then [[]] else []))
      else if seg = ''.'' then path_segments rest (acc @ (if rest = [] then [[]] else []))
      else path_segments rest (acc @ [seg]))"

text \<open>The pieces of the input, cut at the first \<open>:\<close>, then at the first of \<open>/ ? #\<close>,
  then at the first of \<open>? #\<close>, then at the first \<open>#\<close>.\<close>

definition scheme_part :: "string \<Rightarrow> string" where
  "scheme_part input = toLowerCase (takeWhile (\<lambda>c. c \<noteq> CHR '':'') input)"

definition after_scheme :: "string \<Rightarrow> string" where
  "after_scheme input = dropWhile (\<lambda>c. c \<noteq> CHR '':'') input"

definition authority_part :: "string \<Rightarrow> string" where
  "authority_part input = takeWhile (\<lambda>c. c \<notin> set ''/?#'') (drop 3 (after_scheme input))"

definition after_authority :: "string \<Rightarrow> string" where
  "after_authority input = dropWhile (\<lambda>c. c \<notin> set ''/?#'') (drop 3 (after_scheme input))"

definition host_part :: "string \<Rightarrow> string" where
  "host_part input = toLowerCase (takeWhile (\<lambda>c. c \<noteq> CHR '':'') (authority_part input))"

definition port_digits :: "string \<Rightarrow> string" where
  "port_digits input = drop 1 (dropWhile (\<lambda>c. c \<noteq> CHR '':'') (authority_part input))"

definition path_part :: "string \<Rightarrow> string" where
  "path_part input = takeWhile (\<lambda>c. c \<notin> set ''?#'') (after_authority input)"

definition after_path :: "string \<Rightarrow> string" where
  "after_path input = dropWhile (\<lambda>c. c \<notin> set ''?#'') (after_authority input)"

definition query_part :: "string \<Rightarrow> string" where
  "query_part input =
     (if startsWith (after_path input) ''?''
      then takeWhile (\<lambda>c. c \<noteq> CHR ''#'') (after_path input) else [])"

definition fragment_part :: "string \<Rightarrow> string" where
  "fragment_part input = dropWhile (\<lambda>c. c \<noteq> CHR ''#'') (after_path input)"

text \<open>The serialised port: none when the port is absent or the default of the scheme.\<close>

definition port_suffix :: "string \<Rightarrow> string \<Rightarrow> string" where
  "port_suffix scheme digits =
     (if digits = [] \<or> read_nat digits 0 = (if scheme = ''http'' then 80 else 443) then []
      else '':'' @ show_nat (read_nat digits 0))"

definition path_name :: "string \<Rightarrow> string" where
  "path_name path = ''/'' @ join (path_segments (split_on CHR ''/'' (drop 1 path)) []) ''/''"

definition plain_url :: "string \<Rightarrow> bool" where
  "plain_url input =
     ((scheme_part input = ''http'' \<or> scheme_part input = ''https'')
      \<and> startsWith (after_scheme input) ''://''
      \<and> plain_host (host_part input)
      \<and> list_all digit_char (port_digits input) \<and> read_nat (port_digits input) 0 \<le> 65535
      \<and> list_all plain_char (path_part input)
      \<and> list_all (\<lambda>c. plain_char c \<or> c = CHR ''?'') (query_part input)
      \<and> list_all (\<lambda>c. plain_char c \<or> c = CHR ''?'' \<or> c = CHR ''#'') (fragment_part input))"

definition node_URL :: "string \<Rightarrow> exn + URL" where
  "node_URL input =
     (if plain_url input
      then Inr \<lparr>toString = scheme_part input @ ''://'' @ host_part input
                     @ port_suffix (scheme_part input) (port_digits input)
                     @ path_name (path_part input) @ query_part input @ fragment_part input,
                 protocol = scheme_part input @ '':'',
                 hostname = host_part input,
                 pathname = path_name (path_part input)\<rparr>
      else Inl (Error ''Invalid URL''))"

text \<open>\<open>new URL(href, base)\<close> for an absolute \<open>href\<close>: the base must parse, and is not used.\<close>

definition node_URL_base :: "string \<Rightarrow> string \<Rightarrow> exn + URL" where
  "node_URL_base h base = (case node_URL base of Inl e \<Rightarrow> Inl e | Inr b \<Rightarrow> node_URL h)"

subsection \<open>A small static web\<close>

text \<open>
  A platform over a table of pages (URL, status, body), a table giving the canonical
  links of each body, and a table giving the parsed form of each sitemap body. A URL
  that is not in the table of pages cannot be reached; a body that is not in the table
  of sitemaps is not XML.
\<close>

definition static_web ::
  "(string \<times> nat \<times> string) list \<Rightarrow> (string \<times> link list) list \<Rightarrow> (string \<times> sitemap_doc) list \<Rightarrow> platform" where
  "static_web pages documents sitemaps =
     \<lparr>new_URL = node_URL,
      new_URL_base = node_URL_base,
      fetch = (\<lambda>t u. case map_of pages u of
                 None \<Rightarrow> Inl (Error (''request to '' @ u @ '' failed''))
               | Some (st, body) \<Rightarrow> Inr \<lparr>resp_status = st, resp_text = Inr body\<rparr>),
      JSDOM_canonicalLinks = (\<lambda>html. case map_of documents html of
                 None \<Rightarrow> Inr []
               | Some ls \<Rightarrow> Inr ls),
      parseStringPromise = (\<lambda>xml. case map_of sitemaps xml of
                 None \<Rightarrow> Inl (Error ''Non-whitespace before first tag.'')
               | Some d \<Rightarrow> Inr d),
      toISOString = (\<lambda>t. ''2025-03-12T21:03:07.000Z'')\<rparr>"

definition in_head :: "string \<Rightarrow> link" where
  "in_head h = \<lparr>getAttribute_href = Some h, closest_head = True\<rparr>"

definition demo :: platform where
  "demo = static_web
     [(''https://example.com/sitemap.xml'', 200, ''sitemap of example.com''),
      (''https://example.com/'', 200, ''home''),
      (''https://example.com/missing'', 200, ''no link''),
      (''https://example.com/old'', 200, ''old''),
      (''https://example.com/moved'', 301, ''moved''),
      (''https://example.com/copy'', 200, ''copy''),
      (''https://example.com/dangling'', 200, ''dangling''),
      (''https://example.com/badlink'', 200, ''bad link'')]
     [(''home'', [in_head ''https://example.com/'']),
      (''old'', [in_head ''https://example.com/moved'']),
      (''copy'', [in_head ''https://example.com/'']),
      (''dangling'', [in_head ''https://example.com/gone'']),
      (''bad link'', [in_head ''http://''])]
     [(''sitemap of example.com'',
       Some (Some [Some ''https://example.com/'', Some ''https://example.com/missing'']))]"





section \<open>Properties of the string methods\<close>

lemma lower_char_idem: "lower_char (lower_char c) = lower_char c"
  by (simp add: lower_char_def split: option.splits if_splits)

lemma toLowerCase_idem: "toLowerCase (toLowerCase s) = toLowerCase s"
  by (simp add: toLowerCase_def lower_char_idem)

lemma lowered_iff: "lowered s \<longleftrightarrow> toLowerCase s = s"
  by (induction s) (auto simp: lowered_def toLowerCase_def)

lemma lowered_toLowerCase: "lowered (toLowerCase s)"
  by (simp add: lowered_iff toLowerCase_idem)

lemma startsWith_iff: "startsWith s pat \<longleftrightarrow> (\<exists>t. s = pat @ t)"
  by (induction s pat rule: startsWith.induct) auto

lemma str_includes_Nil: "str_includes s []"
  by (cases s) simp_all

lemma str_includes_append: "str_includes (a @ x @ b) x"
proof (induction a)
  case Nil
  have "startsWith (x @ b) x"
    by (simp add: startsWith_iff)
  then show ?case
    by (cases "x @ b") simp_all
next
  case (Cons c a)
  then show ?case by simp
qed

lemma set_replace: "set (replace s pat rep) \<subseteq> set s \<union> set rep"
proof (induction s)
  case Nil
  then show ?case by auto
next
  case (Cons c cs)
  have "set (drop (length pat) (c # cs)) \<subseteq> set (c # cs)"
    by (rule set_drop_subset)
  with Cons show ?case by auto
qed

lemma replace_absent: "\<not> str_includes s pat \<Longrightarrow> replace s pat rep = s"
  by (induction s) (auto simp: str_includes_Nil)

lemma indexOf_absent: "indexOf s pat = None \<longleftrightarrow> \<not> str_includes s pat"
  by (induction s) auto

text \<open>\<open>indexOf\<close> finds an occurrence, and no occurrence starts before it.\<close>

lemma indexOf_first:
  "indexOf s pat = Some i \<Longrightarrow>
     i \<le> length s \<and> startsWith (drop i s) pat \<and> (\<forall>j<i. \<not> startsWith (drop j s) pat)"
proof (induction s arbitrary: i)
  case Nil
  then show ?case by (auto split: if_splits)
next
  case (Cons c cs)
  show ?case
  proof (cases "startsWith (c # cs) pat")
    case True
    with Cons.prems show ?thesis by simp
  next
    case False
    with Cons.prems obtain k where k: "indexOf cs pat = Some k" "i = Suc k"
      by auto
    from Cons.IH[OF k(1)] False k(2) show ?thesis
      by (auto simp: less_Suc_eq_0_disj)
  qed
qed

lemma replace_indexOf:
  "replace s pat rep =
     (case indexOf s pat of None \<Rightarrow> s | Some i \<Rightarrow> take i s @ rep @ drop (i + length pat) s)"
  by (induction s) (auto split: option.splits)

text \<open>Replacing \<open>pat\<close>, which ends in a slash, by that slash deletes the rest of \<open>pat\<close>.\<close>

lemma replace_keeps_slash:
  assumes "pat = d @ ''/''"
  shows "replace s pat ''/'' = delete_first s pat (length d)"
proof (cases "indexOf s pat")
  case None
  then show ?thesis by (simp add: replace_indexOf delete_first_def)
next
  case (Some i)
  from indexOf_first[OF Some] obtain t where t: "drop i s = d @ ''/'' @ t"
    by (auto simp: startsWith_iff assms)
  have "drop (i + length d) s = drop (length d) (drop i s)"
    by (simp add: add.commute)
  also have "\<dots> = ''/'' @ t" by (simp add: t)
  finally have a: "drop (i + length d) s = ''/'' @ t" .
  have "drop (i + length pat) s = drop (length pat) (drop i s)"
    by (simp add: add.commute)
  also have "\<dots> = t" by (simp add: t assms)
  finally have b: "drop (i + length pat) s = t" .
  show ?thesis
    by (simp add: replace_indexOf delete_first_def Some a b)
qed

lemma split_first_absent: "sep \<notin> set s \<Longrightarrow> split_first s sep = s"
  by (auto simp: split_first_def)

lemma split_first_free: "sep \<notin> set (split_first s sep)"
  unfolding split_first_def by (induction s) auto

lemma set_split_first: "set (split_first s sep) \<subseteq> set s"
  unfolding split_first_def by (auto dest: set_takeWhileD)

lemma lowered_replace: "lowered s \<Longrightarrow> lowered rep \<Longrightarrow> lowered (replace s pat rep)"
  using set_replace[of s pat rep] by (auto simp: lowered_def)

lemma lowered_butlast: "lowered s \<Longrightarrow> lowered (butlast s)"
  by (auto simp: lowered_def dest: in_set_butlastD)

lemma lowered_split_first: "lowered s \<Longrightarrow> lowered (split_first s sep)"
  using set_split_first[of s sep] by (auto simp: lowered_def)

lemma lowered_lits: "lowered ''/''" "lowered ''://''"
  by (simp_all add: lowered_def lower_char_def)

section \<open>The normalizer\<close>

lemma normalizeUrl_parsed:
  "new_URL p u = Inr parsedUrl \<Longrightarrow>
   normalizeUrl p u =
     Inr (split_first (split_first
            (replace (replace (replace (working parsedUrl) '':80/'' ''/'') '':443/'' ''/'')
               ''://www.'' ''://'')
            CHR ''?'') CHR ''#'')"
  by (simp add: normalizeUrl_def working_def Let_def)

lemma normalizeUrl_unparsed: "new_URL p u = Inl e \<Longrightarrow> normalizeUrl p u = Inr u"
  by (simp add: normalizeUrl_def)

lemma lowered_working: "lowered (working U)"
  by (simp add: working_def slice_0_minus1_def lowered_butlast lowered_toLowerCase)

lemma normalizeUrl_shape:
  assumes "new_URL p u = Inr parsedUrl" and "normalizeUrl p u = Inr n"
  shows "toLowerCase n = n" and "CHR ''?'' \<notin> set n" and "CHR ''#'' \<notin> set n"
proof -
  let ?r = "replace (replace (replace (working parsedUrl) '':80/'' ''/'') '':443/'' ''/'')
              ''://www.'' ''://''"
  have n: "n = split_first (split_first ?r CHR ''?'') CHR ''#''"
    using assms normalizeUrl_parsed[OF assms(1)] by simp
  have "lowered ?r"
    by (intro lowered_replace lowered_working lowered_lits)
  then have "lowered n"
    unfolding n by (intro lowered_split_first)
  then show "toLowerCase n = n" by (simp add: lowered_iff)
  show "CHR ''#'' \<notin> set n" unfolding n by (rule split_first_free)
  have "CHR ''?'' \<notin> set (split_first ?r CHR ''?'')" by (rule split_first_free)
  then show "CHR ''?'' \<notin> set n"
    unfolding n using set_split_first[of "split_first ?r CHR ''?''" "CHR ''#''"] by blast
qed

subsection \<open>The URL constructor of the concrete platform on the inputs used below\<close>

lemmas node_URL_eval = node_URL_def plain_url_def scheme_part_def after_scheme_def
  authority_part_def after_authority_def host_part_def port_digits_def path_part_def
  after_path_def query_part_def fragment_part_def port_suffix_def path_name_def plain_host_def
  plain_char_def label_char_def letter_char_def digit_char_def digit_value_def toLowerCase_def
  lower_char_def show_nat.simps

lemma new_URL_demo: "new_URL demo = node_URL"
  by (simp add: demo_def static_web_def)

lemma node_URL_Page:
  "node_URL ''https://Example.com/Page/'' =
     Inr \<lparr>toString = ''https://example.com/Page/'', protocol = ''https:'',
          hostname = ''example.com'', pathname = ''/Page/''\<rparr>"
  by (simp add: node_URL_eval)

lemma node_URL_page:
  "node_URL ''https://example.com/page'' =
     Inr \<lparr>toString = ''https://example.com/page'', protocol = ''https:'',
          hostname = ''example.com'', pathname = ''/page''\<rparr>"
  by (simp add: node_URL_eval)

lemma node_URL_www443:
  "node_URL ''https://www.example.com:443/x'' =
     Inr \<lparr>toString = ''https://www.example.com/x'', protocol = ''https:'',
          hostname = ''www.example.com'', pathname = ''/x''\<rparr>"
  by (simp add: node_URL_eval)

lemma node_URL_x:
  "node_URL ''https://example.com/x'' =
     Inr \<lparr>toString = ''https://example.com/x'', protocol = ''https:'',
          hostname = ''example.com'', pathname = ''/x''\<rparr>"
  by (simp add: node_URL_eval)

lemma node_URL_root:
  "node_URL ''https://example.com/'' =
     Inr \<lparr>toString = ''https://example.com/'', protocol = ''https:'',
          hostname = ''example.com'', pathname = ''/''\<rparr>"
  by (simp add: node_URL_eval)

lemma node_URL_a2:
  "node_URL ''https://example.com/a//'' =
     Inr \<lparr>toString = ''https://example.com/a//'', protocol = ''https:'',
          hostname = ''example.com'', pathname = ''/a//''\<rparr>"
  by (simp add: node_URL_eval)

lemma node_URL_a1:
  "node_URL ''https://example.com/a/'' =
     Inr \<lparr>toString = ''https://example.com/a/'', protocol = ''https:'',
          hostname = ''example.com'', pathname = ''/a/''\<rparr>"
  by (simp add: node_URL_eval)

lemma node_URL_a0:
  "node_URL ''https://example.com/a'' =
     Inr \<lparr>toString = ''https://example.com/a'', protocol = ''https:'',
          hostname = ''example.com'', pathname = ''/a''\<rparr>"
  by (simp add: node_URL_eval)

lemma node_URL_a80b:
  "node_URL ''https://example.com/a:80/b'' =
     Inr \<lparr>toString = ''https://example.com/a:80/b'', protocol = ''https:'',
          hostname = ''example.com'', pathname = ''/a:80/b''\<rparr>"
  by (simp add: node_URL_eval)

lemma node_URL_a80:
  "node_URL ''https://example.com/a:80/'' =
     Inr \<lparr>toString = ''https://example.com/a:80/'', protocol = ''https:'',
          hostname = ''example.com'', pathname = ''/a:80/''\<rparr>"
  by (simp add: node_URL_eval)

lemma node_URL_not_a_url: "node_URL ''not a url'' = Inl (Error ''Invalid URL'')"
  by (simp add: node_URL_eval)

lemmas normalize_eval = working_def toLowerCase_def lower_char_def endsWith_def
  slice_0_minus1_def split_first_def

lemma normalizeUrl_parses:
  "parses p u s path \<Longrightarrow>
   normalizeUrl p u =
     Inr (split_first (split_first
            (replace (replace (replace
               (if endsWith (toLowerCase s) ''/'' \<and> path \<noteq> ''/''
                then slice_0_minus1 (toLowerCase s) else toLowerCase s)
               '':80/'' ''/'') '':443/'' ''/'') ''://www.'' ''://'')
            CHR ''?'') CHR ''#'')"
  by (auto simp: parses_def normalizeUrl_parsed working_def split: sum.splits)

text \<open>
  Claim C8. \<open>normalizeUrl\<close> never throws: it returns a string for every argument. When
  the URL constructor rejects the argument, the argument comes back unchanged; when it
  accepts it, the result is the normal form computed from the parsed URL, which is in
  lower case and has neither a query nor a fragment.
\<close>

theorem normalizeUrl_total:
  "(\<exists>n. normalizeUrl p u = Inr n) \<and>
   (\<forall>e. new_URL p u = Inl e \<longrightarrow> normalizeUrl p u = Inr u) \<and>
   (\<forall>parsedUrl. new_URL p u = Inr parsedUrl \<longrightarrow>
      (\<exists>n. normalizeUrl p u = Inr n
         \<and> n = split_first (split_first
                  (replace (replace (replace (working parsedUrl) '':80/'' ''/'') '':443/'' ''/'')
                     ''://www.'' ''://'')
                  CHR ''?'') CHR ''#''
         \<and> toLowerCase n = n \<and> CHR ''?'' \<notin> set n \<and> CHR ''#'' \<notin> set n))"
proof (intro conjI allI impI)
  show "\<exists>n. normalizeUrl p u = Inr n"
    by (cases "new_URL p u") (simp_all add: normalizeUrl_unparsed normalizeUrl_parsed)
next
  fix e assume "new_URL p u = Inl e"
  then show "normalizeUrl p u = Inr u" by (rule normalizeUrl_unparsed)
next
  fix parsedUrl assume a: "new_URL p u = Inr parsedUrl"
  from normalizeUrl_parsed[OF a] normalizeUrl_shape[OF a]
  show "\<exists>n. normalizeUrl p u = Inr n
         \<and> n = split_first (split_first
                  (replace (replace (replace (working parsedUrl) '':80/'' ''/'') '':443/'' ''/'')
                     ''://www.'' ''://'')
                  CHR ''?'') CHR ''#''
         \<and> toLowerCase n = n \<and> CHR ''?'' \<notin> set n \<and> CHR ''#'' \<notin> set n"
    by blast
qed

theorem normalizeUrl_total_witness:
  "new_URL demo ''not a url'' = Inl (Error ''Invalid URL'')
   \<and> normalizeUrl demo ''not a url'' = Inr ''not a url''
   \<and> new_URL demo ''https://Example.com/Page/''
       = Inr \<lparr>toString = ''https://example.com/Page/'', protocol = ''https:'',
              hostname = ''example.com'', pathname = ''/Page/''\<rparr>
   \<and> normalizeUrl demo ''https://Example.com/Page/'' = Inr ''https://example.com/page''"
  using normalizeUrl_total[of demo "''not a url''"]
        normalizeUrl_total[of demo "''https://Example.com/Page/''"]
  by (simp add: new_URL_demo node_URL_not_a_url node_URL_Page normalize_eval)

text \<open>
  Claim C4. The three examples of the specification, for every platform whose URL
  constructor serialises the five inputs as the URL Standard prescribes (host in lower
  case, default port dropped, path kept): the two pairs have equal normal forms and the
  root URL keeps its slash.
\<close>

theorem normalizeUrl_spec_examples:
  assumes "parses p ''https://Example.com/Page/'' ''https://example.com/Page/'' ''/Page/''"
    and "parses p ''https://example.com/page'' ''https://example.com/page'' ''/page''"
    and "parses p ''https://www.example.com:443/x'' ''https://www.example.com/x'' ''/x''"
    and "parses p ''https://example.com/x'' ''https://example.com/x'' ''/x''"
    and "parses p ''https://example.com/'' ''https://example.com/'' ''/''"
  shows "normalizeUrl p ''https://Example.com/Page/'' = normalizeUrl p ''https://example.com/page''
    \<and> normalizeUrl p ''https://www.example.com:443/x'' = normalizeUrl p ''https://example.com/x''
    \<and> normalizeUrl p ''https://example.com/'' = Inr ''https://example.com/''"
proof -
  have 1: "normalizeUrl p ''https://Example.com/Page/'' = Inr ''https://example.com/page''"
    by (simp add: normalizeUrl_parses[OF assms(1)] normalize_eval)
  have 2: "normalizeUrl p ''https://example.com/page'' = Inr ''https://example.com/page''"
    by (simp add: normalizeUrl_parses[OF assms(2)] normalize_eval)
  have 3: "normalizeUrl p ''https://www.example.com:443/x'' = Inr ''https://example.com/x''"
    by (simp add: normalizeUrl_parses[OF assms(3)] normalize_eval)
  have 4: "normalizeUrl p ''https://example.com/x'' = Inr ''https://example.com/x''"
    by (simp add: normalizeUrl_parses[OF assms(4)] normalize_eval)
  have 5: "normalizeUrl p ''https://example.com/'' = Inr ''https://example.com/''"
    by (simp add: normalizeUrl_parses[OF assms(5)] normalize_eval)
  show ?thesis by (simp add: 1 2 3 4 5)
qed

theorem normalizeUrl_spec_examples_witness:
  "normalizeUrl demo ''https://Example.com/Page/'' = normalizeUrl demo ''https://example.com/page''
    \<and> normalizeUrl demo ''https://www.example.com:443/x'' = normalizeUrl demo ''https://example.com/x''
    \<and> normalizeUrl demo ''https://example.com/'' = Inr ''https://example.com/''"
  by (rule normalizeUrl_spec_examples[of demo])
     (simp_all add: parses_def new_URL_demo node_URL_Page node_URL_page node_URL_www443
        node_URL_x node_URL_root)

text \<open>
  Claim C2, as stated, fails: \<open>normalizeUrl\<close> removes one trailing slash, so a path that
  ends in two slashes loses one at each application.
\<close>

theorem normalizeUrl_not_idempotent:
  "normalizeUrl demo ''https://example.com/a//'' = Inr ''https://example.com/a/''
   \<and> normalizeUrl demo ''https://example.com/a/'' = Inr ''https://example.com/a''"
  by (simp add: normalizeUrl_parsed[of demo] new_URL_demo node_URL_a2 node_URL_a1 normalize_eval)

text \<open>
  Claim C2, amended. A second application changes nothing when the first result \<open>n\<close> is
  serialised unchanged by the URL constructor, does not end in a slash after a path other
  than the root, and contains none of \<open>:80/\<close>, \<open>:443/\<close> and \<open>://www.\<close>.
\<close>

theorem normalizeUrl_idempotent_on_stable:
  assumes "new_URL p u = Inr parsedUrl"
    and "normalizeUrl p u = Inr n"
    and "parses p n n path"
    and "\<not> (endsWith n ''/'' \<and> path \<noteq> ''/'')"
    and "\<not> str_includes n '':80/''"
    and "\<not> str_includes n '':443/''"
    and "\<not> str_includes n ''://www.''"
  shows "normalizeUrl p n = Inr n"
proof -
  have low: "toLowerCase n = n" and q: "CHR ''?'' \<notin> set n" and h: "CHR ''#'' \<notin> set n"
    using normalizeUrl_shape[OF assms(1,2)] by simp_all
  show ?thesis
    using assms(4-7)
    by (auto simp: normalizeUrl_parses[OF assms(3)] low replace_absent split_first_absent q h)
qed

theorem normalizeUrl_idempotent_on_stable_witness:
  "normalizeUrl demo ''https://Example.com/Page/'' = Inr ''https://example.com/page''
   \<and> normalizeUrl demo ''https://example.com/page'' = Inr ''https://example.com/page''"
proof -
  have a: "new_URL demo ''https://Example.com/Page/'' =
     Inr \<lparr>toString = ''https://example.com/Page/'', protocol = ''https:'',
          hostname = ''example.com'', pathname = ''/Page/''\<rparr>"
    by (simp add: new_URL_demo node_URL_Page)
  have b: "normalizeUrl demo ''https://Example.com/Page/'' = Inr ''https://example.com/page''"
    by (simp add: normalizeUrl_parsed[OF a] normalize_eval)
  have c: "parses demo ''https://example.com/page'' ''https://example.com/page'' ''/page''"
    by (simp add: parses_def new_URL_demo node_URL_page)
  have "normalizeUrl demo ''https://example.com/page'' = Inr ''https://example.com/page''"
    by (rule normalizeUrl_idempotent_on_stable[OF a b c]) (simp_all add: endsWith_def)
  with b show ?thesis by simp
qed

text \<open>
  Claim C10, as stated, fails: the replacements work on the string left by the
  trailing-slash step, so an occurrence of \<open>:80/\<close> that ends the lowercased URL, after a
  path other than the root, has lost its slash and stays.
\<close>

theorem normalizeUrl_keeps_trailing_port:
  "new_URL demo ''https://example.com/a:80/''
     = Inr \<lparr>toString = ''https://example.com/a:80/'', protocol = ''https:'',
            hostname = ''example.com'', pathname = ''/a:80/''\<rparr>
   \<and> str_includes (toLowerCase ''https://example.com/a:80/'') '':80/''
   \<and> normalizeUrl demo ''https://example.com/a:80/'' = Inr ''https://example.com/a:80''"
  by (simp add: normalizeUrl_parsed[of demo] new_URL_demo node_URL_a80 normalize_eval)

text \<open>
  Claim C10, amended. For every URL the constructor accepts, \<open>normalizeUrl\<close> deletes the
  three characters \<open>:80\<close> where \<open>:80/\<close> first occurs in the working string (the
  lowercased serialisation after the trailing-slash step), then the four characters
  \<open>:443\<close> where \<open>:443/\<close> first occurs in what is left, wherever that is in the string;
  \<open>indexOf_first\<close> says that \<open>indexOf\<close> is the first occurrence. The witness is the path
  \<open>/a:80/b\<close>, which loses \<open>:80\<close>.
\<close>

theorem normalizeUrl_deletes_port_text:
  assumes "new_URL p u = Inr parsedUrl"
  shows "normalizeUrl p u =
     Inr (split_first (split_first
            (replace (delete_first (delete_first (working parsedUrl) '':80/'' 3) '':443/'' 4)
               ''://www.'' ''://'')
            CHR ''?'') CHR ''#'')"
proof -
  have a: "replace s '':80/'' ''/'' = delete_first s '':80/'' 3" for s
    using replace_keeps_slash[of "'':80/''" "'':80''" s] by (simp add: numeral_3_eq_3)
  have b: "replace s '':443/'' ''/'' = delete_first s '':443/'' 4" for s
    using replace_keeps_slash[of "'':443/''" "'':443''" s] by (simp add: eval_nat_numeral)
  show ?thesis
    by (simp only: normalizeUrl_parsed[OF assms] a b)
qed

theorem normalizeUrl_deletes_port_text_witness:
  "new_URL demo ''https://example.com/a:80/b''
     = Inr \<lparr>toString = ''https://example.com/a:80/b'', protocol = ''https:'',
            hostname = ''example.com'', pathname = ''/a:80/b''\<rparr>
   \<and> indexOf ''https://example.com/a:80/b'' '':80/'' = Some 21
   \<and> normalizeUrl demo ''https://example.com/a:80/b'' = Inr ''https://example.com/a/b''"
proof -
  have a: "new_URL demo ''https://example.com/a:80/b''
     = Inr \<lparr>toString = ''https://example.com/a:80/b'', protocol = ''https:'',
            hostname = ''example.com'', pathname = ''/a:80/b''\<rparr>"
    by (simp add: new_URL_demo node_URL_a80b)
  have i: "indexOf ''https://example.com/a:80/b'' '':80/'' = Some 21"
    by simp
  have w: "working \<lparr>toString = ''https://example.com/a:80/b'', protocol = ''https:'',
            hostname = ''example.com'', pathname = ''/a:80/b''\<rparr> = ''https://example.com/a:80/b''"
    by (simp add: normalize_eval)
  have "normalizeUrl demo ''https://example.com/a:80/b'' = Inr ''https://example.com/a/b''"
    using normalizeUrl_deletes_port_text[OF a]
    by (simp add: w delete_first_def split_first_def)
  with a i show ?thesis by simp
qed

section \<open>The checks of one page\<close>

lemma trim_hd:
  assumes "s \<noteq> []" and "\<not> is_space (hd s)"
  shows "trim s \<noteq> [] \<and> hd (trim s) = hd s"
proof -
  from assms obtain c cs where s: "s = c # cs" and c: "\<not> is_space c"
    by (cases s) auto
  have "dropWhile is_space (rev cs @ [c]) = dropWhile is_space (rev cs) @ [c]"
    using c by (simp add: dropWhile_append3)
  then have "trim s = c # rev (dropWhile is_space (rev cs))"
    by (simp add: trim_def s c)
  then show ?thesis by (simp add: s)
qed

lemma dropWhile_keeps:
  assumes "x \<noteq> []" and "\<not> P (hd x)"
  shows "\<exists>a'. dropWhile P (a @ x @ b) = a' @ x @ b"
proof (induction a)
  case Nil
  from assms have "dropWhile P (x @ b) = x @ b"
    by (cases x) auto
  then show ?case by (intro exI[of _ "[]"]) simp
next
  case (Cons c a)
  then obtain a' where "dropWhile P (a @ x @ b) = a' @ x @ b" by blast
  then show ?case
    by (cases "P c") (auto intro: exI[of _ "c # a"])
qed

lemma trim_keeps:
  assumes "x \<noteq> []" and "\<not> is_space (hd x)" and "\<not> is_space (last x)"
  shows "\<exists>a' b'. trim (a @ x @ b) = a' @ x @ b'"
proof -
  obtain a' where a': "dropWhile is_space (a @ x @ b) = a' @ x @ b"
    using dropWhile_keeps[of x is_space a b] assms(1,2) by blast
  have "rev x \<noteq> []" and "\<not> is_space (hd (rev x))"
    using assms(1,3) by (simp_all add: hd_rev)
  then obtain b' where b': "dropWhile is_space (rev b @ rev x @ rev a') = b' @ rev x @ rev a'"
    using dropWhile_keeps[of "rev x" is_space "rev b" "rev a'"] by blast
  have "trim (a @ x @ b) = a' @ x @ rev b'"
    by (simp add: trim_def a' b')
  then show ?thesis by blast
qed

lemma trim_includes:
  assumes "x \<noteq> []" and "\<not> is_space (hd x)" and "\<not> is_space (last x)"
  shows "str_includes (trim (a @ x @ b)) x"
proof -
  obtain a' b' where "trim (a @ x @ b) = a' @ x @ b'"
    using trim_keeps[OF assms] by blast
  then show ?thesis by (simp add: str_includes_append)
qed

lemma sound_init: "sound (OK, [])"
  by (simp add: sound_def)

lemma sound_fail: "sound v \<Longrightarrow> r \<noteq> [] \<Longrightarrow> hd r \<in> set ''CME'' \<Longrightarrow> sound (fail v r)"
  by (cases "snd v") (auto simp: sound_def fail_def split: if_splits)

lemma grown_refl: "grown v v"
  by (simp add: grown_def)

lemma grown_fail: "grown v w \<Longrightarrow> grown v (fail w r)"
  by (auto simp: grown_def fail_def)

lemma sound_check_canonical_response:
  "sound v \<Longrightarrow> sound (check_canonical_response p t c v)"
  by (auto simp: check_canonical_response_def Let_def intro!: sound_fail split: sum.splits)

lemma grown_check_canonical_response:
  "grown v w \<Longrightarrow> grown v (check_canonical_response p t c w)"
  by (auto simp: check_canonical_response_def Let_def intro!: grown_fail split: sum.splits)

lemma sound_compare_checks:
  "compare_checks p u c v = Inr w \<Longrightarrow> sound v \<Longrightarrow> sound w"
  by (auto simp: compare_checks_def Let_def intro!: sound_fail split: sum.splits if_splits)

lemma grown_compare_checks:
  "compare_checks p u c v = Inr w \<Longrightarrow> grown v w"
  by (auto simp: compare_checks_def Let_def intro!: grown_fail grown_refl split: sum.splits if_splits)

lemma sound_href_checks:
  "href_checks p u l h v t = (Inr w, t') \<Longrightarrow> sound v \<Longrightarrow> sound w"
  by (auto simp: href_checks_def Let_def
           intro!: sound_fail sound_check_canonical_response
           elim!: sound_compare_checks split: sum.splits if_splits)

lemma sound_link_checks:
  "link_checks p u ls t = (Inr w, t') \<Longrightarrow> sound w"
  by (auto simp: link_checks_def Let_def
           intro!: sound_fail sound_init
           elim!: sound_href_checks split: option.splits if_splits)

lemma finish_sound:
  assumes "sound v"
  shows "(res_status (finish u v) = OK) = (res_explanation (finish u v) = ''No errors'')"
proof (cases "fst v")
  case OK
  with assms show ?thesis by (simp add: sound_def finish_def trim_def)
next
  case FAIL
  with assms have ne: "snd v \<noteq> []" and h: "hd (snd v) \<in> set ''CME''"
    by (simp_all add: sound_def)
  from h have "\<not> is_space (hd (snd v))"
    by (auto simp: is_space_def)
  from trim_hd[OF ne this] h have "trim (snd v) \<noteq> []" and "trim (snd v) \<noteq> ''No errors''"
    by auto
  with FAIL show ?thesis by (simp add: finish_def)
qed

lemma runCanonicalChecks_returns:
  "\<exists>r t'. runCanonicalChecks p u t = (Inr r, t') \<and> res_url r = u"
  by (auto simp: runCanonicalChecks_def runCanonicalChecks_try_def finish_def
           split: sum.splits prod.splits)

lemma runCanonicalChecks_links:
  assumes "fetch p t u = Inr response" and "resp_text response = Inr html"
    and "JSDOM_canonicalLinks p html = Inr ls"
  shows "runCanonicalChecks p u t =
     (case link_checks p u ls t of
        (Inl e, t') \<Rightarrow> (Inr \<lparr>res_url = u, res_status = FAIL,
                             res_explanation = ''Fetch error: '' @ message e\<rparr>, t')
      | (Inr v, t') \<Rightarrow> (Inr (finish u v), t'))"
  using assms
  by (simp add: runCanonicalChecks_def runCanonicalChecks_try_def split: prod.splits sum.splits)

lemma link_checks_href:
  assumes "ls \<noteq> []" and "getAttribute_href (hd ls) = Some h" and "h \<noteq> []"
  shows "link_checks p u ls t =
     href_checks p u (hd ls) h
       (if length ls > 1 then fail (OK, []) ''Multiple canonical tags detected. '' else (OK, [])) t"
  using assms by (simp add: link_checks_def Let_def)

lemma href_checks_resolved:
  assumes "new_URL_base p h u = Inr resolved"
  shows "href_checks p u l h v t =
     (compare_checks p u (toString resolved)
        (check_canonical_response p (t + 1) (toString resolved)
           (if \<not> closest_head l then fail v ''Canonical tag is not in the head section. '' else v)),
      t + 2)"
  using assms by (simp add: href_checks_def Let_def)

lemma compare_checks_Inr:
  assumes "new_URL p u = Inr a" and "new_URL p c = Inr b"
  shows "\<exists>w. compare_checks p u c v = Inr w"
  using assms by (simp add: compare_checks_def Let_def)

lemma grown_trans: "grown a b \<Longrightarrow> grown b c \<Longrightarrow> grown a c"
  by (auto simp: grown_def)

text \<open>The general shape of a run that reaches the canonical fetch and the comparisons.\<close>

lemma runCanonicalChecks_reaches:
  assumes "fetch p t u = Inr response" and "resp_text response = Inr html"
    and "JSDOM_canonicalLinks p html = Inr ls"
    and "ls \<noteq> []" and "getAttribute_href (hd ls) = Some h" and "h \<noteq> []"
    and "new_URL_base p h u = Inr resolved"
    and "new_URL p u = Inr pageUrl" and "new_URL p (toString resolved) = Inr targetUrl"
  shows "\<exists>v w. runCanonicalChecks p u t = (Inr (finish u w), t + 2)
           \<and> grown (check_canonical_response p (t + 1) (toString resolved) v) w"
proof -
  define v0 where
    "v0 = (if length ls > 1 then fail (OK, []) ''Multiple canonical tags detected. '' else (OK, []))"
  define v1 where
    "v1 = (if \<not> closest_head (hd ls)
           then fail v0 ''Canonical tag is not in the head section. '' else v0)"
  define v2 where "v2 = check_canonical_response p (t + 1) (toString resolved) v1"
  obtain w where w: "compare_checks p u (toString resolved) v2 = Inr w"
    using compare_checks_Inr[OF assms(8,9)] by blast
  have "link_checks p u ls t = href_checks p u (hd ls) h v0 t"
    unfolding v0_def by (rule link_checks_href[OF assms(4-6)])
  also have "\<dots> = (compare_checks p u (toString resolved) v2, t + 2)"
    unfolding v2_def v1_def by (rule href_checks_resolved[OF assms(7)])
  finally have "link_checks p u ls t = (Inr w, t + 2)"
    by (simp only: w)
  then have "runCanonicalChecks p u t = (Inr (finish u w), t + 2)"
    by (simp add: runCanonicalChecks_links[OF assms(1-3)])
  moreover have "grown v2 w" by (rule grown_compare_checks[OF w])
  ultimately show ?thesis unfolding v2_def by blast
qed

lemma finish_includes:
  assumes "grown v w" and "snd v = a @ x @ b" and "x \<noteq> []"
    and "\<not> is_space (hd x)" and "\<not> is_space (last x)"
  shows "str_includes (res_explanation (finish u w)) x"
proof -
  from assms(1,2) obtain suffix where s: "snd w = a @ x @ (b @ suffix)"
    by (auto simp: grown_def)
  have i: "str_includes (trim (snd w)) x"
    unfolding s by (rule trim_includes[OF assms(3-5)])
  with assms(3) have "trim (snd w) \<noteq> []"
    by auto
  with i show ?thesis by (simp add: finish_def)
qed

lemma finish_FAIL: "grown v w \<Longrightarrow> fst v = FAIL \<Longrightarrow> res_status (finish u w) = FAIL"
  by (simp add: grown_def finish_def)

lemma redirect_response:
  assumes "fetch p t c = Inr r" and "resp_status r \<in> {301, 302, 307, 308}"
  shows "check_canonical_response p t c v =
     (FAIL, snd v @ (''Canonical URL returned status '' @ show_nat (resp_status r)
                     @ ''. Canonical URL is redirecting.'') @ '' '')"
  using assms by (auto simp: check_canonical_response_def fail_def Let_def)


text \<open>
  Claim C5. When the fetch of the canonical target answers 301, 302, 307 or 308, the
  result is \<open>FAIL\<close> and its explanation contains the status reason with the code,
  followed by the redirect reason.
\<close>

theorem redirect_gives_both_reasons:
  assumes "fetch p t url = Inr response" and "resp_text response = Inr html"
    and "JSDOM_canonicalLinks p html = Inr canonicalLinks"
    and "canonicalLinks \<noteq> []" and "getAttribute_href (hd canonicalLinks) = Some h" and "h \<noteq> []"
    and "new_URL_base p h url = Inr resolved"
    and "new_URL p url = Inr pageUrl" and "new_URL p (toString resolved) = Inr targetUrl"
    and "fetch p (t + 1) (toString resolved) = Inr canonicalResponse"
    and "resp_status canonicalResponse \<in> {301, 302, 307, 308}"
  shows "\<exists>r. runCanonicalChecks p url t = (Inr r, t + 2) \<and> res_status r = FAIL
           \<and> str_includes (res_explanation r)
                (''Canonical URL returned status '' @ show_nat (resp_status canonicalResponse)
                 @ ''. Canonical URL is redirecting.'')"
proof -
  let ?x = "''Canonical URL returned status '' @ show_nat (resp_status canonicalResponse)
            @ ''. Canonical URL is redirecting.''"
  obtain v w where run: "runCanonicalChecks p url t = (Inr (finish url w), t + 2)"
    and g: "grown (check_canonical_response p (t + 1) (toString resolved) v) w"
    using runCanonicalChecks_reaches[OF assms(1-9)] by blast
  have c: "check_canonical_response p (t + 1) (toString resolved) v = (FAIL, snd v @ ?x @ '' '')"
    using redirect_response[OF assms(10,11)] by simp
  have "str_includes (res_explanation (finish url w)) ?x"
    by (rule finish_includes[OF g, of "snd v" ?x "'' ''"]) (use c in \<open>simp_all add: is_space_def\<close>)
  moreover have "res_status (finish url w) = FAIL"
    by (rule finish_FAIL[OF g]) (use c in simp)
  ultimately show ?thesis using run by blast
qed

text \<open>
  Claim C6. When the document of the page has no canonical link, the result is \<open>FAIL\<close>
  with the single reason that the canonical tag is missing; nothing else of the platform
  is consulted, and no second request is made (the tick advances by one).
\<close>

theorem no_canonical_link_is_missing:
  assumes "fetch p t url = Inr response" and "resp_text response = Inr html"
    and "JSDOM_canonicalLinks p html = Inr []"
  shows "runCanonicalChecks p url t =
     (Inr \<lparr>res_url = url, res_status = FAIL, res_explanation = ''Canonical tag is missing.''\<rparr>,
      t + 1)"
  by (simp add: runCanonicalChecks_links[OF assms] link_checks_def finish_def fail_def trim_def
        is_space_def)

text \<open>
  Claim C7. Every call of \<open>runCanonicalChecks\<close> returns a result whose status is \<open>OK\<close>
  exactly when its explanation is \<open>No errors\<close>; and the verdict reached by the checks
  has an empty explanation exactly when its status is \<open>OK\<close>.
\<close>

theorem status_OK_iff_no_errors:
  "(\<exists>r t'. runCanonicalChecks p url t = (Inr r, t')
       \<and> ((res_status r = OK) = (res_explanation r = ''No errors'')))
   \<and> (\<forall>v t'. link_checks p url canonicalLinks t = (Inr v, t') \<longrightarrow> ((fst v = OK) = (snd v = [])))"
proof (intro conjI allI impI)
  show "\<exists>r t'. runCanonicalChecks p url t = (Inr r, t')
       \<and> ((res_status r = OK) = (res_explanation r = ''No errors''))"
    by (auto simp: runCanonicalChecks_def runCanonicalChecks_try_def
             split: sum.splits prod.splits dest!: sound_link_checks finish_sound)
next
  fix v t' assume "link_checks p url canonicalLinks t = (Inr v, t')"
  then have "sound v" by (rule sound_link_checks)
  then show "(fst v = OK) = (snd v = [])"
    by (auto simp: sound_def split: if_splits)
qed





lemma auditUrls_total:
  "\<exists>results t'. auditUrls p urls acc t = (Inr results, t')
      \<and> map res_url results = map res_url acc @ urls"
proof (induction urls arbitrary: acc t)
  case Nil
  then show ?case by simp
next
  case (Cons u urls)
  obtain r t1 where r: "runCanonicalChecks p u t = (Inr r, t1)" "res_url r = u"
    using runCanonicalChecks_returns by blast
  from Cons[of "acc @ [r]" t1] r show ?case by simp
qed








subsection \<open>The concrete platform on the pages used below\<close>

lemma new_URL_base_demo: "new_URL_base demo = node_URL_base"
  by (simp add: demo_def static_web_def)

lemma fetch_demo:
  "fetch demo t ''https://example.com/'' = Inr \<lparr>resp_status = 200, resp_text = Inr ''home''\<rparr>"
  "fetch demo t ''https://example.com/missing'' = Inr \<lparr>resp_status = 200, resp_text = Inr ''no link''\<rparr>"
  "fetch demo t ''https://example.com/old'' = Inr \<lparr>resp_status = 200, resp_text = Inr ''old''\<rparr>"
  "fetch demo t ''https://example.com/moved'' = Inr \<lparr>resp_status = 301, resp_text = Inr ''moved''\<rparr>"
  "fetch demo t ''https://example.com/copy'' = Inr \<lparr>resp_status = 200, resp_text = Inr ''copy''\<rparr>"
  "fetch demo t ''https://example.com/dangling'' = Inr \<lparr>resp_status = 200, resp_text = Inr ''dangling''\<rparr>"
  "fetch demo t ''https://example.com/gone'' = Inl (Error ''request to https://example.com/gone failed'')"
  "fetch demo t ''https://example.com/nowhere'' = Inl (Error ''request to https://example.com/nowhere failed'')"
  "fetch demo t ''https://example.com/sitemap.xml''
     = Inr \<lparr>resp_status = 200, resp_text = Inr ''sitemap of example.com''\<rparr>"
  "fetch demo t ''https://down.example/sitemap.xml''
     = Inl (Error ''request to https://down.example/sitemap.xml failed'')"
  by (simp_all add: demo_def static_web_def)

lemma JSDOM_demo:
  "JSDOM_canonicalLinks demo ''home'' = Inr [in_head ''https://example.com/'']"
  "JSDOM_canonicalLinks demo ''no link'' = Inr []"
  "JSDOM_canonicalLinks demo ''old'' = Inr [in_head ''https://example.com/moved'']"
  "JSDOM_canonicalLinks demo ''copy'' = Inr [in_head ''https://example.com/'']"
  "JSDOM_canonicalLinks demo ''dangling'' = Inr [in_head ''https://example.com/gone'']"
  by (simp_all add: demo_def static_web_def)

lemma parseStringPromise_demo:
  "parseStringPromise demo ''sitemap of example.com''
     = Inr (Some (Some [Some ''https://example.com/'', Some ''https://example.com/missing'']))"
  by (simp add: demo_def static_web_def)

lemma toISOString_demo: "toISOString demo t = ''2025-03-12T21:03:07.000Z''"
  by (simp add: demo_def static_web_def)

lemma node_URL_old:
  "node_URL ''https://example.com/old'' =
     Inr \<lparr>toString = ''https://example.com/old'', protocol = ''https:'',
          hostname = ''example.com'', pathname = ''/old''\<rparr>"
  by (simp add: node_URL_eval)

lemma node_URL_moved:
  "node_URL ''https://example.com/moved'' =
     Inr \<lparr>toString = ''https://example.com/moved'', protocol = ''https:'',
          hostname = ''example.com'', pathname = ''/moved''\<rparr>"
  by (simp add: node_URL_eval)

lemma node_URL_copy:
  "node_URL ''https://example.com/copy'' =
     Inr \<lparr>toString = ''https://example.com/copy'', protocol = ''https:'',
          hostname = ''example.com'', pathname = ''/copy''\<rparr>"
  by (simp add: node_URL_eval)

lemma node_URL_dangling:
  "node_URL ''https://example.com/dangling'' =
     Inr \<lparr>toString = ''https://example.com/dangling'', protocol = ''https:'',
          hostname = ''example.com'', pathname = ''/dangling''\<rparr>"
  by (simp add: node_URL_eval)

lemma node_URL_gone:
  "node_URL ''https://example.com/gone'' =
     Inr \<lparr>toString = ''https://example.com/gone'', protocol = ''https:'',
          hostname = ''example.com'', pathname = ''/gone''\<rparr>"
  by (simp add: node_URL_eval)

lemma node_URL_sitemap:
  "node_URL ''https://example.com/sitemap.xml'' =
     Inr \<lparr>toString = ''https://example.com/sitemap.xml'', protocol = ''https:'',
          hostname = ''example.com'', pathname = ''/sitemap.xml''\<rparr>"
  by (simp add: node_URL_eval)

lemma node_URL_down:
  "node_URL ''https://down.example/sitemap.xml'' =
     Inr \<lparr>toString = ''https://down.example/sitemap.xml'', protocol = ''https:'',
          hostname = ''down.example'', pathname = ''/sitemap.xml''\<rparr>"
  by (simp add: node_URL_eval)

lemmas demo_eval = new_URL_demo new_URL_base_demo node_URL_base_def fetch_demo JSDOM_demo
  in_head_def node_URL_root node_URL_old node_URL_moved node_URL_copy node_URL_dangling
  node_URL_gone

lemmas checks_eval = runCanonicalChecks_def runCanonicalChecks_try_def link_checks_def
  href_checks_def compare_checks_def check_canonical_response_def finish_def fail_def trim_def
  is_space_def Let_def toLowerCase_def lower_char_def show_nat.simps

text \<open>
  Claim C9, as stated, fails: \<open>runCanonicalChecks\<close> takes the page URL and nothing that
  selects a policy. On a page whose canonical link names another valid page, the current
  program answers \<open>OK\<close> and the earlier one answers \<open>FAIL\<close>; each has its policy built in.
\<close>

theorem no_flag_selects_the_policy:
  "runCanonicalChecks demo ''https://example.com/copy'' 0 =
     (Inr \<lparr>res_url = ''https://example.com/copy'', res_status = OK,
           res_explanation = ''No errors''\<rparr>, 2)
   \<and> runCanonicalChecks_selfref demo ''https://example.com/copy'' 0 =
     (Inr \<lparr>res_url = ''https://example.com/copy'', res_status = FAIL,
           res_explanation = ''Canonical URL does not reference itself.''\<rparr>, 2)"
  by (simp add: demo_eval checks_eval runCanonicalChecks_selfref_def link_checks_selfref_def
        href_checks_selfref_def compare_checks_selfref_def)

theorem no_canonical_link_is_missing_witness:
  "fetch demo 0 ''https://example.com/missing'' = Inr \<lparr>resp_status = 200, resp_text = Inr ''no link''\<rparr>
   \<and> JSDOM_canonicalLinks demo ''no link'' = Inr []
   \<and> runCanonicalChecks demo ''https://example.com/missing'' 0 =
       (Inr \<lparr>res_url = ''https://example.com/missing'', res_status = FAIL,
             res_explanation = ''Canonical tag is missing.''\<rparr>, 1)"
  using no_canonical_link_is_missing[of demo 0 "''https://example.com/missing''"
          "\<lparr>resp_status = 200, resp_text = Inr ''no link''\<rparr>" "''no link''"]
  by (simp add: fetch_demo JSDOM_demo)

theorem status_OK_iff_no_errors_witness:
  "link_checks demo ''https://example.com/missing'' [] 0 = (Inr (FAIL, ''Canonical tag is missing. ''), 1)
   \<and> link_checks demo ''https://example.com/'' [in_head ''https://example.com/''] 0 = (Inr (OK, []), 2)
   \<and> (\<exists>r t'. runCanonicalChecks demo ''https://example.com/'' 0 = (Inr r, t')
          \<and> ((res_status r = OK) = (res_explanation r = ''No errors'')))"
  using status_OK_iff_no_errors[of demo "''https://example.com/''" 0 "[in_head ''https://example.com/'']"]
        status_OK_iff_no_errors[of demo "''https://example.com/missing''" 0 "[]"]
  by (simp add: demo_eval checks_eval)

theorem redirect_gives_both_reasons_witness:
  "fetch demo 0 ''https://example.com/old'' = Inr \<lparr>resp_status = 200, resp_text = Inr ''old''\<rparr>
   \<and> JSDOM_canonicalLinks demo ''old'' = Inr [in_head ''https://example.com/moved'']
   \<and> fetch demo 1 ''https://example.com/moved'' = Inr \<lparr>resp_status = 301, resp_text = Inr ''moved''\<rparr>
   \<and> (\<exists>r. runCanonicalChecks demo ''https://example.com/old'' 0 = (Inr r, 2)
          \<and> res_status r = FAIL
          \<and> str_includes (res_explanation r)
               ''Canonical URL returned status 301. Canonical URL is redirecting.'')"
proof -
  define target where
    "target = \<lparr>toString = ''https://example.com/moved'', protocol = ''https:'',
                hostname = ''example.com'', pathname = ''/moved''\<rparr>"
  define page where
    "page = \<lparr>toString = ''https://example.com/old'', protocol = ''https:'',
              hostname = ''example.com'', pathname = ''/old''\<rparr>"
  have 1: "fetch demo 0 ''https://example.com/old'' = Inr \<lparr>resp_status = 200, resp_text = Inr ''old''\<rparr>"
    by (simp add: fetch_demo)
  have 2: "resp_text \<lparr>resp_status = 200, resp_text = Inr ''old''\<rparr> = Inr ''old''"
    by simp
  have 3: "JSDOM_canonicalLinks demo ''old'' = Inr [in_head ''https://example.com/moved'']"
    by (simp add: JSDOM_demo)
  have 4: "[in_head ''https://example.com/moved''] \<noteq> []"
    by simp
  have 5: "getAttribute_href (hd [in_head ''https://example.com/moved'']) = Some ''https://example.com/moved''"
    by (simp add: in_head_def)
  have 6: "''https://example.com/moved'' \<noteq> []"
    by simp
  have 7: "new_URL_base demo ''https://example.com/moved'' ''https://example.com/old'' = Inr target"
    by (simp add: demo_eval target_def)
  have 8: "new_URL demo ''https://example.com/old'' = Inr page"
    by (simp add: demo_eval page_def)
  have 9: "new_URL demo (toString target) = Inr target"
    by (simp add: demo_eval target_def)
  have 10: "fetch demo (0 + 1) (toString target) = Inr \<lparr>resp_status = 301, resp_text = Inr ''moved''\<rparr>"
    by (simp add: fetch_demo target_def)
  have 11: "resp_status \<lparr>resp_status = 301, resp_text = Inr ''moved''\<rparr> \<in> {301, 302, 307, 308}"
    by simp
  from redirect_gives_both_reasons[OF 1 2 3 4 5 6 7 8 9 10 11]
  have "\<exists>r. runCanonicalChecks demo ''https://example.com/old'' 0 = (Inr r, 2)
          \<and> res_status r = FAIL
          \<and> str_includes (res_explanation r)
               ''Canonical URL returned status 301. Canonical URL is redirecting.''"
    by (simp add: show_nat.simps numeral_2_eq_2)
  with 1 3 10 show ?thesis
    by (simp add: target_def)
qed







lemma selfref_links:
  assumes "fetch p t u = Inr response" and "resp_text response = Inr html"
    and "JSDOM_canonicalLinks p html = Inr ls"
  shows "runCanonicalChecks_selfref p u t =
     (case link_checks_selfref p u ls t of
        (Inl e, t') \<Rightarrow> (Inr \<lparr>res_url = u, res_status = FAIL,
                             res_explanation = ''Fetch error: '' @ message e\<rparr>, t')
      | (Inr v, t') \<Rightarrow> (Inr (finish u v), t'))"
  using assms
  by (simp add: runCanonicalChecks_selfref_def split: prod.splits sum.splits)

text \<open>
  Claim C9, amended. For a page with one canonical link that is in the head, resolves,
  answers 200, and has the host and protocol of the page, an absolute and lowercase URL:
  the current \<open>runCanonicalChecks\<close> returns \<open>OK\<close> whether or not the canonical URL is the
  page URL, and the earlier variant returns \<open>OK\<close> only when it is, and otherwise \<open>FAIL\<close>
  with the self-reference reason.
\<close>

theorem selfref_policy_fixed_in_each_variant:
  assumes "fetch p t url = Inr response" and "resp_text response = Inr html"
    and "JSDOM_canonicalLinks p html = Inr [canonicalLink]"
    and "getAttribute_href canonicalLink = Some h" and "h \<noteq> []"
    and "closest_head canonicalLink"
    and "new_URL_base p h url = Inr resolved"
    and "fetch p (t + 1) (toString resolved) = Inr canonicalResponse"
    and "resp_status canonicalResponse = 200"
    and "new_URL p url = Inr pageUrl" and "new_URL p (toString resolved) = Inr targetUrl"
    and "hostname pageUrl = hostname targetUrl" and "protocol pageUrl = protocol targetUrl"
    and "startsWith (toString resolved) ''http://'' \<or> startsWith (toString resolved) ''https://''"
    and "toString resolved = toLowerCase (toString resolved)"
  shows "runCanonicalChecks p url t =
           (Inr \<lparr>res_url = url, res_status = OK, res_explanation = ''No errors''\<rparr>, t + 2)
       \<and> runCanonicalChecks_selfref p url t =
           (if toString resolved = url
            then (Inr \<lparr>res_url = url, res_status = OK, res_explanation = ''No errors''\<rparr>, t + 2)
            else (Inr \<lparr>res_url = url, res_status = FAIL,
                       res_explanation = ''Canonical URL does not reference itself.''\<rparr>, t + 2))"
proof
  have c: "check_canonical_response p (Suc t) (toString resolved) v = v" for v
    using assms(8,9) by (simp add: check_canonical_response_def)
  have l: "toLowerCase (toString resolved) = toString resolved"
    using assms(15) by simp
  have cmp: "compare_checks p url (toString resolved) (OK, []) = Inr (OK, [])"
    using assms(10-14) by (auto simp: compare_checks_def l)
  show "runCanonicalChecks p url t =
           (Inr \<lparr>res_url = url, res_status = OK, res_explanation = ''No errors''\<rparr>, t + 2)"
    using assms(4-7)
    by (simp add: runCanonicalChecks_links[OF assms(1-3)] link_checks_def href_checks_def c cmp
          finish_def trim_def Let_def)
  have cmp2: "compare_checks_selfref p url (toString resolved) (OK, []) =
      Inr (if toString resolved = url then (OK, [])
           else (FAIL, ''Canonical URL does not reference itself. ''))"
    using assms(10-14) by (auto simp: compare_checks_selfref_def l fail_def)
  show "runCanonicalChecks_selfref p url t =
           (if toString resolved = url
            then (Inr \<lparr>res_url = url, res_status = OK, res_explanation = ''No errors''\<rparr>, t + 2)
            else (Inr \<lparr>res_url = url, res_status = FAIL,
                       res_explanation = ''Canonical URL does not reference itself.''\<rparr>, t + 2))"
    using assms(4-7)
    by (simp add: selfref_links[OF assms(1-3)] link_checks_selfref_def href_checks_selfref_def c
          cmp2 finish_def trim_def is_space_def Let_def)
qed

theorem selfref_policy_fixed_in_each_variant_witness:
  "fetch demo 0 ''https://example.com/copy'' = Inr \<lparr>resp_status = 200, resp_text = Inr ''copy''\<rparr>
   \<and> JSDOM_canonicalLinks demo ''copy'' = Inr [in_head ''https://example.com/'']
   \<and> fetch demo 1 ''https://example.com/'' = Inr \<lparr>resp_status = 200, resp_text = Inr ''home''\<rparr>
   \<and> runCanonicalChecks demo ''https://example.com/copy'' 0 =
       (Inr \<lparr>res_url = ''https://example.com/copy'', res_status = OK,
             res_explanation = ''No errors''\<rparr>, 2)
   \<and> runCanonicalChecks_selfref demo ''https://example.com/copy'' 0 =
       (Inr \<lparr>res_url = ''https://example.com/copy'', res_status = FAIL,
             res_explanation = ''Canonical URL does not reference itself.''\<rparr>, 2)"
proof -
  define target where
    "target = \<lparr>toString = ''https://example.com/'', protocol = ''https:'',
                hostname = ''example.com'', pathname = ''/''\<rparr>"
  define page where
    "page = \<lparr>toString = ''https://example.com/copy'', protocol = ''https:'',
              hostname = ''example.com'', pathname = ''/copy''\<rparr>"
  have 1: "fetch demo 0 ''https://example.com/copy'' = Inr \<lparr>resp_status = 200, resp_text = Inr ''copy''\<rparr>"
    by (simp add: fetch_demo)
  have 2: "resp_text \<lparr>resp_status = 200, resp_text = Inr ''copy''\<rparr> = Inr ''copy''"
    by simp
  have 3: "JSDOM_canonicalLinks demo ''copy'' = Inr [in_head ''https://example.com/'']"
    by (simp add: JSDOM_demo)
  have 4: "getAttribute_href (in_head ''https://example.com/'') = Some ''https://example.com/''"
    by (simp add: in_head_def)
  have 5: "''https://example.com/'' \<noteq> []"
    by simp
  have 6: "closest_head (in_head ''https://example.com/'')"
    by (simp add: in_head_def)
  have 7: "new_URL_base demo ''https://example.com/'' ''https://example.com/copy'' = Inr target"
    by (simp add: demo_eval target_def)
  have 8: "fetch demo (0 + 1) (toString target) = Inr \<lparr>resp_status = 200, resp_text = Inr ''home''\<rparr>"
    by (simp add: fetch_demo target_def)
  have 9: "resp_status \<lparr>resp_status = 200, resp_text = Inr ''home''\<rparr> = 200"
    by simp
  have 10: "new_URL demo ''https://example.com/copy'' = Inr page"
    by (simp add: demo_eval page_def)
  have 11: "new_URL demo (toString target) = Inr target"
    by (simp add: demo_eval target_def)
  have 12: "hostname page = hostname target" and 13: "protocol page = protocol target"
    by (simp_all add: page_def target_def)
  have 14: "startsWith (toString target) ''http://'' \<or> startsWith (toString target) ''https://''"
    by (simp add: target_def)
  have 15: "toString target = toLowerCase (toString target)"
    by (simp add: target_def toLowerCase_def lower_char_def)
  from selfref_policy_fixed_in_each_variant[OF 1 2 3 4 5 6 7 8 9 10 11 12 13 14 15]
  have "runCanonicalChecks demo ''https://example.com/copy'' 0 =
       (Inr \<lparr>res_url = ''https://example.com/copy'', res_status = OK,
             res_explanation = ''No errors''\<rparr>, 2)
   \<and> runCanonicalChecks_selfref demo ''https://example.com/copy'' 0 =
       (Inr \<lparr>res_url = ''https://example.com/copy'', res_status = FAIL,
             res_explanation = ''Canonical URL does not reference itself.''\<rparr>, 2)"
    by (simp add: target_def)
  with 1 3 8 show ?thesis
    by (simp add: target_def)
qed

section \<open>The audit of the configured sitemaps\<close>

lemma auditSitemaps_append:
  "auditSitemaps p (a @ b) s =
     (case auditSitemaps p a s of
        (None, s1) \<Rightarrow> auditSitemaps p b s1
      | (Some e, s1) \<Rightarrow> (Some e, s1))"
  by (induction a arbitrary: s) (auto simp: Let_def split: sum.splits prod.splits)

lemma getDomainName_demo:
  "getDomainName demo ''https://example.com/sitemap.xml'' = Inr ''example.com''"
  "getDomainName demo ''https://down.example/sitemap.xml'' = Inr ''down.example''"
  by (simp_all add: getDomainName_def new_URL_demo node_URL_sitemap node_URL_down)

lemma fetchSitemapUrls_demo:
  "fetchSitemapUrls demo ''https://example.com/sitemap.xml'' t
     = (Inr [''https://example.com/'', ''https://example.com/missing''], t + 1)"
  "fetchSitemapUrls demo ''https://down.example/sitemap.xml'' t
     = (Inl (Error ''request to https://down.example/sitemap.xml failed''), t + 1)"
  by (simp_all add: fetchSitemapUrls_def fetch_demo parseStringPromise_demo)

text \<open>
  Claim C1, as stated, fails: \<open>runAudit\<close> has no \<open>try\<close> around \<open>fetchSitemapUrls\<close>.
  With a first sitemap that cannot be fetched and a second that can, the run ends with
  the exception of the first and writes no report.
\<close>

theorem sitemap_failure_stops_later_sitemaps:
  "runAudit demo \<lparr>sitemapUrls = [''https://down.example/sitemap.xml'',
                                  ''https://example.com/sitemap.xml'']\<rparr>
     = (Some (Error ''request to https://down.example/sitemap.xml failed''),
        \<lparr>tick = 1, files = [], grandTotalOK = 0, grandTotalFail = 0, grandTotalChecked = 0\<rparr>)
   \<and> fetchSitemapUrls demo ''https://example.com/sitemap.xml'' 1
     = (Inr [''https://example.com/'', ''https://example.com/missing''], 2)"
  by (simp add: runAudit_def getDomainName_demo fetchSitemapUrls_demo)

text \<open>
  Claim C1, amended. When loading a sitemap fails, \<open>runAudit\<close> ends there with that
  exception: the state is the one left by the sitemaps before it (their reports are
  written, their totals counted), with the tick of the failed load, and it is the same
  whatever sitemaps follow, so none of them is processed.
\<close>

theorem sitemap_failure_ends_run:
  assumes "runAudit p \<lparr>sitemapUrls = before\<rparr> = (None, s1)"
    and "getDomainName p sitemapUrl = Inr domain"
    and "fetchSitemapUrls p sitemapUrl (tick s1) = (Inl e, t1)"
  shows "runAudit p \<lparr>sitemapUrls = before @ sitemapUrl # rest\<rparr> = (Some e, s1\<lparr>tick := t1\<rparr>)"
  using assms by (simp add: runAudit_def auditSitemaps_append)

lemma one_sitemap_demo:
  "\<exists>s1. runAudit demo \<lparr>sitemapUrls = [''https://example.com/sitemap.xml'']\<rparr> = (None, s1)
      \<and> map fst (files s1) = [''results/example.com/sitemap_20250312210307.csv'']"
proof -
  obtain results t2 where
    r: "auditUrls demo [''https://example.com/'', ''https://example.com/missing''] [] (Suc 0)
          = (Inr results, t2)"
    using auditUrls_total[of demo "[''https://example.com/'', ''https://example.com/missing'']" "[]" "Suc 0"]
    by blast
  have n: "getSitemapName ''https://example.com/sitemap.xml'' = ''sitemap''"
    by (simp add: getSitemapName_def strip_origin_def endsWith_def)
  have ts: "getTimestamp demo t = ''20250312210307''" for t
    by (simp add: getTimestamp_def toISOString_demo split_first_def)
  show ?thesis
    by (simp add: runAudit_def getDomainName_demo fetchSitemapUrls_demo r n ts
          saveResultsToCSV_def path_join_def Let_def del: auditUrls.simps)
qed

theorem sitemap_failure_ends_run_witness:
  "\<exists>s1. runAudit demo \<lparr>sitemapUrls = [''https://example.com/sitemap.xml'']\<rparr> = (None, s1)
      \<and> map fst (files s1) = [''results/example.com/sitemap_20250312210307.csv'']
      \<and> fetchSitemapUrls demo ''https://down.example/sitemap.xml'' (tick s1)
          = (Inl (Error ''request to https://down.example/sitemap.xml failed''), tick s1 + 1)
      \<and> runAudit demo \<lparr>sitemapUrls = [''https://example.com/sitemap.xml'',
                                       ''https://down.example/sitemap.xml'',
                                       ''https://example.com/sitemap.xml'']\<rparr>
          = (Some (Error ''request to https://down.example/sitemap.xml failed''),
             s1\<lparr>tick := tick s1 + 1\<rparr>)"
proof -
  obtain s1 where
    a: "runAudit demo \<lparr>sitemapUrls = [''https://example.com/sitemap.xml'']\<rparr> = (None, s1)"
    and f: "map fst (files s1) = [''results/example.com/sitemap_20250312210307.csv'']"
    using one_sitemap_demo by (elim exE conjE)
  have b: "getDomainName demo ''https://down.example/sitemap.xml'' = Inr ''down.example''"
    by (simp add: getDomainName_demo)
  have c: "fetchSitemapUrls demo ''https://down.example/sitemap.xml'' (tick s1)
          = (Inl (Error ''request to https://down.example/sitemap.xml failed''), tick s1 + 1)"
    by (simp add: fetchSitemapUrls_demo)
  from sitemap_failure_ends_run[OF a b c, of "[''https://example.com/sitemap.xml'']"] a f c
  show ?thesis by simp
qed

end
